theory Spec2Isabelle
  imports Main
begin

section \<open>Python values and built-ins used by the session core\<close>

text \<open>
  The configuration of \<open>homie/main.py\<close> is dynamically typed: an environment variable is
  a string, a value of the JSON configuration file is whatever the file holds, a default of
  \<open>DEFAULT_PREFS\<close> is \<open>None\<close>, a string, an integer or a boolean. \<open>pyval\<close> is that
  value space (JSON arrays, objects and non-integer numbers are not represented).
\<close>

datatype pyval = PNone | PBool bool | PInt int | PStr string

text \<open>Python truthiness, as read by \<open>if not self.host\<close>, \<open>if self.username\<close> and alike.\<close>

fun py_truthy :: "pyval \<Rightarrow> bool" where
  "py_truthy PNone = False"
| "py_truthy (PBool b) = b"
| "py_truthy (PInt n) = (n \<noteq> 0)"
| "py_truthy (PStr s) = (s \<noteq> [])"

text \<open>The exceptions the modelled code raises or lets through.\<close>

datatype py_error =
    ValueError string
  | TypeError
  | IndexError
  | OverflowError
  | EnvironmentError string
  | BaseException string
  | OtherException string

text \<open>
  \<open>int(x)\<close> on a configuration value. \<open>int(None)\<close> raises \<open>TypeError\<close>, a boolean
  converts to 0 or 1, an integer to itself. The conversion of a string (surrounding
  whitespace, sign, digits grouped by underscores, the interpreter's limit on the number
  of digits) is not modelled: it is the parameter \<open>int_str\<close>, the interpreter's \<open>int\<close> on
  strings, of \<open>py_int\<close> and of every method that converts.
\<close>

type_synonym conversion = "string \<Rightarrow> py_error + int"

fun py_int :: "conversion \<Rightarrow> pyval \<Rightarrow> py_error + int" where
  "py_int int_str (PInt n) = Inr n"
| "py_int int_str (PBool b) = Inr (if b then 1 else 0)"
| "py_int int_str (PStr s) = int_str s"
| "py_int int_str PNone = Inl TypeError"

text \<open>\<open>sep.join(xs)\<close> on a list of strings.\<close>

fun join :: "string \<Rightarrow> string list \<Rightarrow> string" where
  "join sep [] = []"
| "join sep [x] = x"
| "join sep (x # y # ys) = x @ sep @ join sep (y # ys)"

section \<open>Identifier validation (\<open>homie.helpers\<close>)\<close>

text \<open>
  Modelled from the spec: \<open>homie/helpers.py\<close> (\<open>isIdFormat\<close>, \<open>generateDeviceId\<close>) is
  not among the source files. Section 4.1 of the specification: an identifier is valid iff
  it is non-empty and matches \<open>^[a-z0-9](-?[a-z0-9])*$\<close>: lowercase ASCII letters and
  digits, single hyphens as internal separators. A value that is no string is no valid
  identifier. \<open>generateDeviceId\<close> is random: its successive results are the parameter
  \<open>gen :: nat \<Rightarrow> string\<close> of the functions below (\<open>gen k\<close> is the result of call \<open>k\<close>).
\<close>

definition is_lower_alnum :: "char \<Rightarrow> bool" where
  "is_lower_alnum c = (c \<in> set ''abcdefghijklmnopqrstuvwxyz0123456789'')"

fun id_tail :: "string \<Rightarrow> bool" where
  "id_tail [] = True"
| "id_tail [c] = is_lower_alnum c"
| "id_tail (c # d # ds) =
     (if is_lower_alnum c then id_tail (d # ds)
      else c = CHR ''-'' \<and> is_lower_alnum d \<and> id_tail ds)"

definition isValidIdentifier :: "string \<Rightarrow> bool" where
  "isValidIdentifier s = (case s of [] \<Rightarrow> False | c # cs \<Rightarrow> is_lower_alnum c \<and> id_tail cs)"

fun isIdFormat :: "pyval \<Rightarrow> bool" where
  "isIdFormat (PStr s) = isValidIdentifier s"
| "isIdFormat v = False"

section \<open>Configuration: \<open>DEFAULT_PREFS\<close> and \<open>Homie._initAttrs\<close>\<close>

text \<open>
  \<open>DEFAULT_PREFS\<close> (lines 19-31): preference name, attribute name (\<open>'key'\<close>) and default
  (\<open>'val'\<close>).
\<close>

definition DEFAULT_PREFS :: "(string \<times> string \<times> pyval) list" where
  "DEFAULT_PREFS =
    [(''CA_CERTS'', ''ca_certs'', PNone),
     (''DEVICE_ID'', ''deviceId'', PStr ''xxxxxxxx''),
     (''DEVICE_NAME'', ''deviceName'', PStr ''xxxxxxxx''),
     (''HOST'', ''host'', PNone),
     (''KEEPALIVE'', ''keepalive'', PInt 60),
     (''PASSWORD'', ''password'', PNone),
     (''PORT'', ''port'', PInt 1883),
     (''QOS'', ''qos'', PInt 1),
     (''SUBSCRIBE_ALL'', ''subscribe_all'', PBool False),
     (''TOPIC'', ''baseTopic'', PStr ''devices''),
     (''USERNAME'', ''username'', PNone)]"

text \<open>
  The object under construction: its attribute dictionary, and how often
  \<open>generateDeviceId\<close> has been invoked on its behalf.
\<close>

record obj =
  attr :: "string \<rightharpoonup> pyval"
  gen_calls :: nat

text \<open>\<open>os.getenv(name, default)\<close> and \<open>config.get(key, default)\<close>.\<close>

definition getenv :: "(string \<rightharpoonup> string) \<Rightarrow> string \<Rightarrow> pyval \<Rightarrow> pyval" where
  "getenv env name dflt = (case env name of Some v \<Rightarrow> PStr v | None \<Rightarrow> dflt)"

definition config_get :: "(string \<rightharpoonup> pyval) \<Rightarrow> string \<Rightarrow> pyval \<Rightarrow> pyval" where
  "config_get config k dflt = (case config k of Some v \<Rightarrow> v | None \<Rightarrow> dflt)"

text \<open>
  The \<open>deviceId\<close> property setter (lines 430-438): a value in identifier format is stored,
  any other is replaced by a generated identifier.
\<close>

definition deviceId_setter :: "(nat \<Rightarrow> string) \<Rightarrow> pyval \<Rightarrow> obj \<Rightarrow> obj" where
  "deviceId_setter gen v ob =
     (if isIdFormat v then ob\<lparr>attr := (attr ob)(''deviceId'' \<mapsto> v)\<rparr>
      else ob\<lparr>attr := (attr ob)(''deviceId'' \<mapsto> PStr (gen (gen_calls ob))),
              gen_calls := Suc (gen_calls ob)\<rparr>)"

text \<open>
  \<open>setattr(self, key, val)\<close>: \<open>deviceId\<close> is a property with the validating setter; the
  setters of the other properties (\<open>baseTopic\<close>) store the value as it is.
\<close>

definition setattr_homie :: "(nat \<Rightarrow> string) \<Rightarrow> string \<Rightarrow> pyval \<Rightarrow> obj \<Rightarrow> obj" where
  "setattr_homie gen k v ob =
     (if k = ''deviceId'' then deviceId_setter gen v ob
      else ob\<lparr>attr := (attr ob)(k \<mapsto> v)\<rparr>)"

text \<open>The value \<open>val\<close> computed in the loop body of \<open>_initAttrs\<close> (lines 117-123).\<close>

definition pref_val :: "(string \<rightharpoonup> string) \<Rightarrow> (string \<rightharpoonup> pyval) \<Rightarrow> string \<Rightarrow> pyval \<Rightarrow> pyval" where
  "pref_val env config pref dflt = getenv env (''HOMIE_'' @ pref) (config_get config pref dflt)"

text \<open>\<open>Homie._initAttrs\<close> (lines 112-128): the loop over \<open>DEFAULT_PREFS\<close>.\<close>

fun initAttrs_loop ::
  "(string \<rightharpoonup> string) \<Rightarrow> (string \<rightharpoonup> pyval) \<Rightarrow> (nat \<Rightarrow> string) \<Rightarrow>
   (string \<times> string \<times> pyval) list \<Rightarrow> obj \<Rightarrow> obj" where
  "initAttrs_loop env config gen [] ob = ob"
| "initAttrs_loop env config gen ((pref, k, dflt) # rest) ob =
     initAttrs_loop env config gen rest (setattr_homie gen k (pref_val env config pref dflt) ob)"

definition u_initAttrs ::
  "(string \<rightharpoonup> string) \<Rightarrow> (string \<rightharpoonup> pyval) \<Rightarrow> (nat \<Rightarrow> string) \<Rightarrow> obj \<Rightarrow> obj" where
  "u_initAttrs env config gen ob = initAttrs_loop env config gen DEFAULT_PREFS ob"

section \<open>The session object\<close>

text \<open>
  Modelled from the spec: \<open>homie/node.py\<close> (\<open>HomieNode\<close>, its properties and
  \<open>sendProperties\<close>) is not among the source files. Section 3 of the specification: a
  node has a \<open>nodeId\<close>, a \<open>nodeType\<close> and zero or more declared properties, each a name,
  a last-known value and a retain flag, kept in declaration order.
\<close>

record property =
  p_name :: string
  p_value :: pyval
  p_retain :: bool

record node =
  nodeId :: string
  nodeType :: string
  props :: "property list"

text \<open>
  What the session core asks of its collaborators, in program order: the calls on the
  transport client \<open>self.mqtt\<close> (publish, subscribe, unsubscribe, ...), \<open>time.sleep\<close> and
  the start of a periodic timer. A message handler is identified by a number.
\<close>

datatype call =
    Publish string pyval bool int
  | SubscribeList "(string \<times> int) list"
  | SubscribeTopic string int
  | Unsubscribe string
  | MessageCallbackAdd string nat
  | WillSet string pyval bool
  | UsernamePwSet pyval pyval
  | TlsSet pyval
  | Connect pyval pyval pyval
  | LoopStart
  | LoopStop
  | Disconnect
  | Sleep nat
  | TimerStart string

text \<open>
  The attributes of a \<open>Homie\<close> object that the session core reads after construction.
  \<open>baseTopic\<close> and \<open>deviceId\<close> are the two strings the constructor joins to the topic
  root \<open>mqtt_topic\<close> (lines 87-90).
  \<open>qos\<close> is the configuration value as \<open>_initAttrs\<close> stored it; each use site (lines
  174, 256, 282, 305) converts it with \<open>int(self.qos)\<close>. \<open>fwname\<close> and \<open>fwversion\<close> are
  \<open>None\<close> or the string given to \<open>setFirmware\<close>. \<open>callbacks_set\<close> records that \<open>_initialize\<close> has installed the four
  lifecycle callbacks on the transport client (lines 143-146), and \<open>calls\<close> is the trace
  of collaborator calls made so far.
\<close>

record homie =
  baseTopic :: string
  deviceId :: string
  deviceName :: pyval
  host :: pyval
  port :: pyval
  username :: pyval
  password :: pyval
  qos :: pyval
  keepalive :: pyval
  ca_certs :: pyval
  subscribe_all :: pyval
  fwname :: "string option"
  fwversion :: "string option"
  nodes :: "node list"
  timers :: "(string \<times> int) list"
  subscriptions :: "(string \<times> int) list"
  subscribe_all_forced :: bool
  statsInterval :: int
  mqtt_topic :: string
  setupCalled :: bool
  mqtt_connected :: bool
  mqtt_subscribed :: bool
  callbacks_set :: bool
  calls :: "call list"

text \<open>
  What a call of the session core reads from the host it runs on: the lines of
  \<open>/proc/net/wireless\<close> (\<open>None\<close> when \<open>open\<close> raises \<open>EnvironmentError\<close>), Python's
  \<open>int(float(s))\<close> on a string (floating-point parsing is not modelled: the conversion is
  a parameter), the answers of \<open>NetworkInformation\<close> and \<open>int(time.time() - self.startTime)\<close>.
\<close>

text \<open>
  Modelled from the spec: \<open>homie/networkinformation.py\<close> (\<open>NetworkInformation\<close>) is
  not among the source files. Section 6 of the specification: local IP and MAC are
  best-effort values, never fatal; they are the fields \<open>local_ip\<close> and \<open>local_mac\<close> below.
\<close>

record platform =
  wireless :: "string list option"
  int_float :: conversion
  local_ip :: pyval
  local_mac :: pyval
  elapsed :: int

text \<open>
  A method of the session object: it returns the exception it raised, if any, and the
  object as its statements left it (the calls made before a raise stay made). Log
  messages are not part of the model.
\<close>

type_synonym action = "homie \<Rightarrow> py_error option \<times> homie"

definition ok :: action where
  "ok s = (None, s)"

definition raise_error :: "py_error \<Rightarrow> action" where
  "raise_error e s = (Some e, s)"

definition do_call :: "call \<Rightarrow> action" where
  "do_call c s = (None, s\<lparr>calls := calls s @ [c]\<rparr>)"

text \<open>Statements in sequence: the first that raises ends the method.\<close>

fun seqs :: "action list \<Rightarrow> action" where
  "seqs [] s = (None, s)"
| "seqs (f # fs) s = (case f s of (None, s') \<Rightarrow> seqs fs s' | (Some e, s') \<Rightarrow> (Some e, s'))"

subsection \<open>Publishing\<close>

text \<open>
  \<open>Homie.publish\<close> (lines 301-322): a call on the transport only when connected. Without
  a \<open>qos\<close> argument the configured one is converted first (line 305), and the conversion
  may raise.
\<close>

definition publish :: "conversion \<Rightarrow> string \<Rightarrow> pyval \<Rightarrow> bool \<Rightarrow> int option \<Rightarrow> action" where
  "publish int_str topic payload retain q s =
     (if mqtt_connected s then
        (case q of
           Some q' \<Rightarrow> do_call (Publish topic payload retain q') s
         | None \<Rightarrow>
             (case py_int int_str (qos s) of
                Inl e \<Rightarrow> raise_error e s
              | Inr n \<Rightarrow> do_call (Publish topic payload retain n) s))
      else ok s)"

text \<open>\<open>Homie.setNodeProperty\<close> (lines 242-248); \<open>retain\<close> defaults to \<open>True\<close>.\<close>

definition setNodeProperty :: "conversion \<Rightarrow> node \<Rightarrow> string \<Rightarrow> pyval \<Rightarrow> bool option \<Rightarrow> action" where
  "setNodeProperty int_str homieNode prop val retain s =
     publish int_str (join ''/'' [mqtt_topic s, nodeId homieNode, prop]) val
       (case retain of None \<Rightarrow> True | Some r \<Rightarrow> r) None s"

text \<open>
  Modelled from the spec: \<open>HomieNode.sendProperties\<close> is not among the source files.
  Section 4.5 of the specification: the announcement publishes, with \<open>retain = true\<close>,
  all declared property values of the node, in declaration order, each to the property's
  topic.
\<close>

definition sendProperties :: "conversion \<Rightarrow> node \<Rightarrow> action" where
  "sendProperties int_str n =
     seqs (map (\<lambda>p. setNodeProperty int_str n (p_name p) (p_value p) (Some True)) (props n))"

text \<open>\<open>Homie.publishNodes\<close> (lines 324-333).\<close>

definition publishNodes :: "conversion \<Rightarrow> action" where
  "publishNodes int_str s =
     seqs (publish int_str (mqtt_topic s @ ''/$nodes'')
             (PStr (join '','' (map nodeId (nodes s)))) True None
           # map (sendProperties int_str) (nodes s)) s"

text \<open>\<open>Homie.publishLocalipAndMac\<close> (lines 335-347).\<close>

definition publishLocalipAndMac :: "conversion \<Rightarrow> platform \<Rightarrow> action" where
  "publishLocalipAndMac int_str os s =
     seqs [publish int_str (mqtt_topic s @ ''/$localip'') (local_ip os) True None,
           publish int_str (mqtt_topic s @ ''/$mac'') (local_mac os) True None] s"

text \<open>Lines 349-391: the single-topic announcements.\<close>

definition publishStatsInterval :: "conversion \<Rightarrow> action" where
  "publishStatsInterval int_str s =
     publish int_str (mqtt_topic s @ ''/$stats/interval'') (PInt (statsInterval s)) True None s"

definition publishUptime :: "conversion \<Rightarrow> platform \<Rightarrow> action" where
  "publishUptime int_str os s =
     publish int_str (mqtt_topic s @ ''/$stats/uptime'') (PInt (elapsed os)) True None s"

definition publishImplementation :: "conversion \<Rightarrow> action" where
  "publishImplementation int_str s =
     publish int_str (mqtt_topic s @ ''/$implementation'') (PStr ''homie-python'') True None s"

definition HOMIE_VERSION :: string where
  "HOMIE_VERSION = ''2.0.1''"

definition publishHomieVersion :: "conversion \<Rightarrow> action" where
  "publishHomieVersion int_str s =
     publish int_str (mqtt_topic s @ ''/$homie'') (PStr HOMIE_VERSION) True None s"

definition publishFwname :: "conversion \<Rightarrow> action" where
  "publishFwname int_str s =
     (case fwname s of
        None \<Rightarrow> ok s
      | Some n \<Rightarrow>
          if n \<noteq> [] then publish int_str (mqtt_topic s @ ''/$fw/name'') (PStr n) True None s
          else ok s)"

definition publishFwversion :: "conversion \<Rightarrow> action" where
  "publishFwversion int_str s =
     (case fwversion s of
        None \<Rightarrow> ok s
      | Some v \<Rightarrow>
          if v \<noteq> [] then publish int_str (mqtt_topic s @ ''/$fw/version'') (PStr v) True None s
          else ok s)"

subsection \<open>Signal strength\<close>

text \<open>
  \<open>line.split()\<close>: the maximal runs of characters that are no whitespace. A line is a
  string of characters with code points below 256; the whitespace among them is tab, line
  feed, vertical tab, form feed, carriage return, the four separators U+001C to U+001F,
  space, next line U+0085 and no-break space U+00A0.
\<close>

definition is_space :: "char \<Rightarrow> bool" where
  "is_space c =
     (c \<in> set [CHR 0x09, CHR 0x0A, CHR 0x0B, CHR 0x0C, CHR 0x0D, CHR 0x1C, CHR 0x1D, CHR 0x1E,
               CHR 0x1F, CHR 0x20, CHR 0x85, CHR 0xA0])"

fun split_ws :: "string \<Rightarrow> string \<Rightarrow> string list" where
  "split_ws cur [] = (if cur = [] then [] else [cur])"
| "split_ws cur (c # cs) =
     (if is_space c then (if cur = [] then split_ws [] cs else cur # split_ws [] cs)
      else split_ws (cur @ [c]) cs)"

definition split :: "string \<Rightarrow> string list" where
  "split line = split_ws [] line"

text \<open>
  The body of the branch \<open>i == 2\<close> of \<open>publishSignal\<close> (lines 408-409):
  \<open>data[2]\<close> raises \<open>IndexError\<close> on fewer than three fields, and \<open>int(float(...))\<close>
  raises what the conversion raises.
\<close>

definition third_field :: "conversion \<Rightarrow> string \<Rightarrow> py_error + int" where
  "third_field conv line =
     (case split line of
        _ # _ # d # _ \<Rightarrow> conv d
      | _ \<Rightarrow> Inl IndexError)"

text \<open>The loop \<open>for i, line in enumerate(fp)\<close> (lines 406-411).\<close>

fun scan_lines :: "conversion \<Rightarrow> nat \<Rightarrow> string list \<Rightarrow> int \<Rightarrow> py_error + int" where
  "scan_lines conv i [] payload = Inr payload"
| "scan_lines conv i (line # rest) payload =
     (if i = 2 then
        (case third_field conv line of
           Inl e \<Rightarrow> Inl e
         | Inr p \<Rightarrow> scan_lines conv (Suc i) rest p)
      else if i > 2 then Inr payload
      else scan_lines conv (Suc i) rest payload)"

text \<open>The payload of \<open>publishSignal\<close> (lines 395-412): 100 unless the file opens.\<close>

definition signal_payload :: "conversion \<Rightarrow> string list option \<Rightarrow> py_error + int" where
  "signal_payload conv file =
     (case file of
        None \<Rightarrow> Inr 100
      | Some ls \<Rightarrow> scan_lines conv 0 ls 100)"

text \<open>\<open>Homie.publishSignal\<close> (lines 393-416).\<close>

definition publishSignal :: "conversion \<Rightarrow> platform \<Rightarrow> action" where
  "publishSignal int_str os s =
     (case signal_payload (int_float os) (wireless os) of
        Inl e \<Rightarrow> raise_error e s
      | Inr p \<Rightarrow> publish int_str (mqtt_topic s @ ''/$stats/signal'') (PInt p) True None s)"


subsection \<open>Subscriptions\<close>

text \<open>
  \<open>Homie._unsubscribe\<close> (lines 177-181): no topic, or an empty one, means the wildcard.
\<close>

definition u_unsubscribe :: "string option \<Rightarrow> action" where
  "u_unsubscribe topic s =
     do_call (Unsubscribe (case topic of
                             None \<Rightarrow> mqtt_topic s @ ''/#''
                           | Some t \<Rightarrow> if t = [] then mqtt_topic s @ ''/#'' else t)) s"

text \<open>
  \<open>Homie._subscribe\<close> (lines 167-175), the subscription sequence. On an empty list the
  argument \<open>int(self.qos)\<close> of line 174 is evaluated before the subscribe is made and
  before the flag is set.
\<close>

definition u_subscribe :: "conversion \<Rightarrow> action" where
  "u_subscribe int_str s =
     (if subscriptions s \<noteq> [] then
        seqs [do_call (SubscribeList (subscriptions s)),
              (\<lambda>s'. if subscribe_all_forced s' \<and> \<not> py_truthy (subscribe_all s')
                    then u_unsubscribe None s' else ok s')] s
      else
        (case py_int int_str (qos s) of
           Inl e \<Rightarrow> raise_error e s
         | Inr n \<Rightarrow>
             seqs [do_call (SubscribeTopic (mqtt_topic s @ ''/#'') n),
                   (\<lambda>s'. ok (s'\<lparr>subscribe_all_forced := True\<rparr>))] s))"

text \<open>
  \<open>Homie._checkBeforeSetup\<close> (lines 130-138); the exception carries the name of the
  calling method.
\<close>

definition u_checkBeforeSetup :: "string \<Rightarrow> action" where
  "u_checkBeforeSetup caller s =
     (if setupCalled s then raise_error (BaseException caller) s else ok s)"

text \<open>
  \<open>Homie.subscribe\<close> (lines 250-274) and \<open>Homie.subscribeProperty\<close> (lines 276-299);
  they differ in the topic only. \<open>register_subscription\<close> is their common part after
  \<open>_checkBeforeSetup\<close>: without a \<open>qos\<close> argument the configured one is converted
  (lines 256 and 282), which may raise, before anything is recorded.
\<close>

definition register_subscription :: "conversion \<Rightarrow> string \<Rightarrow> nat \<Rightarrow> int option \<Rightarrow> action" where
  "register_subscription int_str subscription callback q s =
     (case (case q of None \<Rightarrow> py_int int_str (qos s) | Some q' \<Rightarrow> Inr q') of
        Inl e \<Rightarrow> raise_error e s
      | Inr n \<Rightarrow>
          seqs [(\<lambda>s'. ok (if \<not> py_truthy (subscribe_all s')
                          then s'\<lparr>subscriptions := subscriptions s' @ [(subscription, n)]\<rparr>
                          else s')),
                (\<lambda>s'. if mqtt_connected s' then u_subscribe int_str s' else ok s'),
                do_call (MessageCallbackAdd subscription callback)] s)"

definition subscribe :: "conversion \<Rightarrow> node \<Rightarrow> string \<Rightarrow> nat \<Rightarrow> int option \<Rightarrow> action" where
  "subscribe int_str homieNode attr_name callback q s =
     seqs [u_checkBeforeSetup ''subscribe'',
           register_subscription int_str
             (join ''/'' [mqtt_topic s, nodeId homieNode, attr_name, ''set'']) callback q] s"

definition subscribeProperty :: "conversion \<Rightarrow> node \<Rightarrow> string \<Rightarrow> nat \<Rightarrow> int option \<Rightarrow> action" where
  "subscribeProperty int_str homieNode attr_name callback q s =
     seqs [u_checkBeforeSetup ''subscribeProperty'',
           register_subscription int_str
             (join ''/'' [mqtt_topic s, nodeId homieNode, attr_name]) callback q] s"

subsection \<open>The lifecycle callbacks\<close>

text \<open>\<open>Homie._connected\<close> (lines 183-205).\<close>

definition u_connected :: "conversion \<Rightarrow> platform \<Rightarrow> action" where
  "u_connected int_str os s =
     seqs [(\<lambda>s'. ok (s'\<lparr>mqtt_connected := True\<rparr>)),
           (\<lambda>s'. if \<not> mqtt_subscribed s' then u_subscribe int_str s' else ok s'),
           publish int_str (mqtt_topic s @ ''/$online'') (PStr ''true'') True None,
           (\<lambda>s'. publish int_str (mqtt_topic s' @ ''/$name'') (deviceName s') True None s'),
           publishHomieVersion int_str,
           publishFwname int_str,
           publishFwversion int_str,
           publishNodes int_str,
           publishLocalipAndMac int_str os,
           publishStatsInterval int_str,
           publishUptime int_str os,
           publishSignal int_str os,
           publishImplementation int_str] s"

text \<open>\<open>Homie._subscribed\<close>, \<open>Homie._published\<close>, \<open>Homie._disconnected\<close> (lines 207-218).\<close>

definition u_subscribed :: action where
  "u_subscribed s = ok (if \<not> mqtt_subscribed s then s\<lparr>mqtt_subscribed := True\<rparr> else s)"

definition u_published :: action where
  "u_published s = ok s"

definition u_disconnected :: action where
  "u_disconnected s = ok (s\<lparr>mqtt_connected := False, mqtt_subscribed := False\<rparr>)"

subsection \<open>Setup\<close>

text \<open>
  One \<open>self.mqtt.connect(host, port, keepalive)\<close>: the call is made, then it returns or
  raises what the transport decides (\<open>None\<close>: it returns).
\<close>

definition connect_attempt :: "py_error option \<Rightarrow> action" where
  "connect_attempt outcome s =
     (outcome, s\<lparr>calls := calls s @ [Connect (host s) (port s) (keepalive s)]\<rparr>)"

fun is_EnvironmentError :: "py_error \<Rightarrow> bool" where
  "is_EnvironmentError (EnvironmentError m) = True"
| "is_EnvironmentError e = False"

text \<open>
  The \<open>try\<close> statement of \<open>_initialize\<close> (lines 157-163); \<open>r1\<close> and \<open>r2\<close> are the outcomes
  of the first and of the second connect.
\<close>

definition connect_with_retry :: "py_error option \<Rightarrow> py_error option \<Rightarrow> action" where
  "connect_with_retry r1 r2 s =
     (case connect_attempt r1 s of
        (None, s') \<Rightarrow> (None, s')
      | (Some e, s') \<Rightarrow>
          if is_EnvironmentError e
          then seqs [do_call (Sleep 10), connect_attempt r2] s'
          else (Some e, s'))"

text \<open>\<open>Homie._initialize\<close> (lines 140-165).\<close>

definition u_initialize :: "py_error option \<Rightarrow> py_error option \<Rightarrow> action" where
  "u_initialize r1 r2 s =
     seqs [(\<lambda>s'. ok (s'\<lparr>callbacks_set := True\<rparr>)),
           do_call (WillSet (mqtt_topic s @ ''/$online'') (PStr ''false'') True),
           (\<lambda>s'. if py_truthy (username s')
                 then do_call (UsernamePwSet (username s') (password s')) s' else ok s'),
           (\<lambda>s'. if py_truthy (ca_certs s') then do_call (TlsSet (ca_certs s')) s' else ok s'),
           connect_with_retry r1 r2,
           do_call LoopStart] s"

text \<open>
  \<open>Homie.Timer\<close> (lines 102-105) and \<open>Homie.setup\<close> (lines 220-232), here
  \<open>homie_setup\<close>.
\<close>

text \<open>
  Modelled from the spec: \<open>homie/timer.py\<close> (\<open>HomieTimer\<close>) is not among the source
  files. Section 4.4 of the specification: a periodic task has a name and an interval and
  is started explicitly; here a timer is that pair, and starting it is a call.
\<close>

definition Timer :: "int \<Rightarrow> string \<Rightarrow> action" where
  "Timer interval name s = ok (s\<lparr>timers := timers s @ [(name, interval)]\<rparr>)"

definition homie_setup :: "py_error option \<Rightarrow> py_error option \<Rightarrow> action" where
  "homie_setup r1 r2 s =
     seqs [(\<lambda>s'. ok (s'\<lparr>setupCalled := True\<rparr>)),
           u_initialize r1 r2,
           (\<lambda>s'. Timer (statsInterval s') ''uptimeTimer'' s'),
           (\<lambda>s'. Timer (statsInterval s') ''signalTimer'' s'),
           do_call (TimerStart ''uptimeTimer''),
           do_call (TimerStart ''signalTimer'')] s"

subsection \<open>Registration and shutdown\<close>

text \<open>\<open>Homie.Node\<close> (lines 107-110) and \<open>Homie.setFirmware\<close> (lines 234-240).\<close>

definition Node :: "string \<Rightarrow> string \<Rightarrow> action" where
  "Node nid ntype s = ok (s\<lparr>nodes := nodes s @ [\<lparr>nodeId = nid, nodeType = ntype, props = []\<rparr>]\<rparr>)"

definition setFirmware :: "string \<Rightarrow> string \<Rightarrow> action" where
  "setFirmware name version s =
     seqs [u_checkBeforeSetup ''setFirmware'',
           (\<lambda>s'. ok (s'\<lparr>fwname := Some name, fwversion := Some version\<rparr>))] s"

text \<open>
  Modelled from the spec: declaring a property of a registered node (section 4.3) is done
  by \<open>homie/node.py\<close>, which is not among the source files. It records the property on
  the node (here: the node at index \<open>i\<close> of the registry) and publishes nothing.
\<close>

definition declareProperty :: "nat \<Rightarrow> property \<Rightarrow> action" where
  "declareProperty i p s =
     ok (if i < length (nodes s)
         then s\<lparr>nodes := (nodes s)[i := (nodes s ! i)\<lparr>props := props (nodes s ! i) @ [p]\<rparr>]\<rparr>
         else s)"

text \<open>\<open>Homie._exitus\<close> (lines 458-466).\<close>

definition u_exitus :: "conversion \<Rightarrow> action" where
  "u_exitus int_str s =
     seqs [publish int_str (mqtt_topic s @ ''/$online'') (PStr ''false'') True None,
           do_call LoopStop,
           do_call Disconnect] s"


section \<open>Construction: \<open>Homie.__init__\<close>\<close>

text \<open>
  What the constructor does outside the object: the exit hook and the two signal handlers
  it registers first (lines 58-60), and the creation of the transport client (line 98).
\<close>

datatype init_event = AtexitRegister | SignalInstall string | CreateClient string

text \<open>
  Lines 62-72 set the eleven configuration attributes to \<open>None\<close>; \<open>deviceId\<close> passes
  through its setter there too. An attribute read below is one of these eleven.
\<close>

definition blank_attributes :: "(nat \<Rightarrow> string) \<Rightarrow> obj" where
  "blank_attributes gen =
     fold (\<lambda>k. setattr_homie gen k PNone)
       [''deviceId'', ''deviceName'', ''host'', ''port'', ''username'', ''password'', ''qos'',
        ''keepalive'', ''baseTopic'', ''ca_certs'', ''subscribe_all'']
       \<lparr>attr = Map.empty, gen_calls = 0\<rparr>"

definition getattr :: "obj \<Rightarrow> string \<Rightarrow> pyval" where
  "getattr ob k = (case attr ob k of Some v \<Rightarrow> v | None \<Rightarrow> PNone)"

text \<open>
  The object a successful constructor returns, before any method is called: its
  configuration attributes, the strings \<open>baseTopic\<close> and \<open>deviceId\<close> among them, the topic
  root (lines 87-90) and the client id (line 95).
\<close>

record constructed =
  c_obj :: obj
  c_baseTopic :: string
  c_deviceId :: string
  c_mqtt_topic :: string
  c_clientId :: string

text \<open>
  \<open>Homie.__init__\<close> (lines 56-100). \<open>mk\<close> is the outcome of \<open>HomieMqtt(self, clientId)\<close>
  (\<open>None\<close>: the client is created). \<open>"/".join\<close> raises \<open>TypeError\<close> on an item that is no
  string.
\<close>

definition init ::
  "(string \<rightharpoonup> string) \<Rightarrow> (string \<rightharpoonup> pyval) \<Rightarrow> (nat \<Rightarrow> string) \<Rightarrow> py_error option \<Rightarrow>
   init_event list \<times> (py_error + constructed)" where
  "init env config gen mk =
     (let hooks = [AtexitRegister, SignalInstall ''SIGTERM'', SignalInstall ''SIGHUP''];
          ob = u_initAttrs env config gen (blank_attributes gen)
      in if \<not> py_truthy (getattr ob ''host'')
         then (hooks, Inl (ValueError ''No host specified.''))
         else (case (getattr ob ''baseTopic'', getattr ob ''deviceId'') of
                 (PStr b, PStr d) \<Rightarrow>
                   (hooks @ [CreateClient (''Homie-'' @ d)],
                    case mk of
                      Some e \<Rightarrow> Inl e
                    | None \<Rightarrow> Inr \<lparr>c_obj = ob, c_baseTopic = b, c_deviceId = d,
                                   c_mqtt_topic = join ''/'' [b, d],
                                   c_clientId = ''Homie-'' @ d\<rparr>)
               | _ \<Rightarrow> (hooks, Inl TypeError)))"

text \<open>
  The session object of a constructed \<open>Homie\<close>: the configuration attributes as
  \<open>_initAttrs\<close> stored them, and the initial values that lines 78-94 give the registries
  and flags.
\<close>

definition session_of :: "constructed \<Rightarrow> homie" where
  "session_of c =
     \<lparr>baseTopic = c_baseTopic c,
      deviceId = c_deviceId c,
      deviceName = getattr (c_obj c) ''deviceName'',
      host = getattr (c_obj c) ''host'',
      port = getattr (c_obj c) ''port'',
      username = getattr (c_obj c) ''username'',
      password = getattr (c_obj c) ''password'',
      qos = getattr (c_obj c) ''qos'',
      keepalive = getattr (c_obj c) ''keepalive'',
      ca_certs = getattr (c_obj c) ''ca_certs'',
      subscribe_all = getattr (c_obj c) ''subscribe_all'',
      fwname = None,
      fwversion = None,
      nodes = [],
      timers = [],
      subscriptions = [],
      subscribe_all_forced = False,
      statsInterval = 60,
      mqtt_topic = c_mqtt_topic c,
      setupCalled = False,
      mqtt_connected = False,
      mqtt_subscribed = False,
      callbacks_set = False,
      calls = []\<rparr>"

section \<open>Runs of a session\<close>

text \<open>
  What can happen to a session object: a method call of the program, a lifecycle callback
  of the transport, the firing of one of the two periodic timers, the exit hook. The
  transport calls back only what \<open>_initialize\<close> has installed (lines 143-146), and a
  timer fires only once \<open>setup\<close> has created it (lines 227-232). One interpreter
  (\<open>int_str\<close>) runs the whole session.
\<close>

datatype op =
    OpNode string string
  | OpDeclareProperty nat property
  | OpSetFirmware string string
  | OpSubscribe node string nat "int option"
  | OpSubscribeProperty node string nat "int option"
  | OpSetup "py_error option" "py_error option"
  | OpSetNodeProperty node string pyval "bool option"
  | OpPublish string pyval bool "int option"
  | CbConnected platform
  | CbSubscribed
  | CbPublished
  | CbDisconnected
  | FireUptimeTimer platform
  | FireSignalTimer platform
  | OpExitus

fun run_op :: "conversion \<Rightarrow> op \<Rightarrow> action" where
  "run_op int_str (OpNode nid ntype) s = Node nid ntype s"
| "run_op int_str (OpDeclareProperty i p) s = declareProperty i p s"
| "run_op int_str (OpSetFirmware name version) s = setFirmware name version s"
| "run_op int_str (OpSubscribe n a cb q) s = subscribe int_str n a cb q s"
| "run_op int_str (OpSubscribeProperty n a cb q) s = subscribeProperty int_str n a cb q s"
| "run_op int_str (OpSetup r1 r2) s = homie_setup r1 r2 s"
| "run_op int_str (OpSetNodeProperty n p v r) s = setNodeProperty int_str n p v r s"
| "run_op int_str (OpPublish t v r q) s = publish int_str t v r q s"
| "run_op int_str (CbConnected os) s =
     (if callbacks_set s then u_connected int_str os s else ok s)"
| "run_op int_str CbSubscribed s = (if callbacks_set s then u_subscribed s else ok s)"
| "run_op int_str CbPublished s = (if callbacks_set s then u_published s else ok s)"
| "run_op int_str CbDisconnected s = (if callbacks_set s then u_disconnected s else ok s)"
| "run_op int_str (FireUptimeTimer os) s =
     (if ''uptimeTimer'' \<in> fst ` set (timers s) then publishUptime int_str os s else ok s)"
| "run_op int_str (FireSignalTimer os) s =
     (if ''signalTimer'' \<in> fst ` set (timers s) then publishSignal int_str os s else ok s)"
| "run_op int_str OpExitus s = u_exitus int_str s"

text \<open>
  The states a session object can be in: the state after construction, and the state any
  operation leaves a reachable state in, whether it returned or raised.
\<close>

inductive reachable :: "conversion \<Rightarrow> homie \<Rightarrow> bool" for int_str :: conversion where
  constructed: "init env config gen mk = (evs, Inr c) \<Longrightarrow> reachable int_str (session_of c)"
| operation: "reachable int_str s \<Longrightarrow> run_op int_str x s = (r, s') \<Longrightarrow> reachable int_str s'"

text \<open>The state after a sequence of operations, whether each returned or raised.\<close>

definition run_ops :: "conversion \<Rightarrow> op list \<Rightarrow> homie \<Rightarrow> homie" where
  "run_ops int_str xs s = fold (\<lambda>x s'. snd (run_op int_str x s')) xs s"

text \<open>The calls an action adds to the trace of a state.\<close>

definition new_calls :: "homie \<Rightarrow> homie \<Rightarrow> call list" where
  "new_calls s s' = drop (length (calls s)) (calls s')"


section \<open>Traces\<close>

text \<open>
  The lists of calls that the lemmas below show the methods to make in a session whose
  configured qos converts to the integer \<open>q\<close>. \<open>retained\<close> is a publish under the topic
  root with \<open>retain = True\<close> and that qos; \<open>subscription_calls\<close> are the calls of the
  subscription sequence; \<open>announcement\<close> is the publish sequence of \<open>_connected\<close>, as far
  as the read of the signal strength (\<open>sig\<close>) lets it go.
\<close>

definition retained :: "string \<Rightarrow> int \<Rightarrow> string \<Rightarrow> pyval \<Rightarrow> call" where
  "retained root q suffix payload = Publish (root @ suffix) payload True q"

definition subscription_calls :: "int \<Rightarrow> homie \<Rightarrow> call list" where
  "subscription_calls q s =
     (if subscriptions s \<noteq> [] then
        SubscribeList (subscriptions s) #
        (if subscribe_all_forced s \<and> \<not> py_truthy (subscribe_all s)
         then [Unsubscribe (mqtt_topic s @ ''/#'')] else [])
      else [SubscribeTopic (mqtt_topic s @ ''/#'') q])"

definition property_calls :: "string \<Rightarrow> int \<Rightarrow> node \<Rightarrow> call list" where
  "property_calls root q n =
     map (\<lambda>p. retained root q (''/'' @ nodeId n @ ''/'' @ p_name p) (p_value p)) (props n)"

definition firmware_calls :: "string \<Rightarrow> int \<Rightarrow> string option \<Rightarrow> string \<Rightarrow> call list" where
  "firmware_calls root q fw suffix =
     (case fw of None \<Rightarrow> [] | Some v \<Rightarrow> if v \<noteq> [] then [retained root q suffix (PStr v)] else [])"

definition signal_calls :: "string \<Rightarrow> int \<Rightarrow> py_error + int \<Rightarrow> call list" where
  "signal_calls root q sig =
     (case sig of
        Inl e \<Rightarrow> []
      | Inr p \<Rightarrow> [retained root q ''/$stats/signal'' (PInt p),
                  retained root q ''/$implementation'' (PStr ''homie-python'')])"

definition announcement :: "int \<Rightarrow> platform \<Rightarrow> homie \<Rightarrow> call list" where
  "announcement q os s =
     [retained (mqtt_topic s) q ''/$online'' (PStr ''true''),
      retained (mqtt_topic s) q ''/$name'' (deviceName s),
      retained (mqtt_topic s) q ''/$homie'' (PStr ''2.0.1'')] @
     firmware_calls (mqtt_topic s) q (fwname s) ''/$fw/name'' @
     firmware_calls (mqtt_topic s) q (fwversion s) ''/$fw/version'' @
     [retained (mqtt_topic s) q ''/$nodes'' (PStr (join '','' (map nodeId (nodes s))))] @
     concat (map (property_calls (mqtt_topic s) q) (nodes s)) @
     [retained (mqtt_topic s) q ''/$localip'' (local_ip os),
      retained (mqtt_topic s) q ''/$mac'' (local_mac os),
      retained (mqtt_topic s) q ''/$stats/interval'' (PInt (statsInterval s)),
      retained (mqtt_topic s) q ''/$stats/uptime'' (PInt (elapsed os))] @
     signal_calls (mqtt_topic s) q (signal_payload (int_float os) (wireless os))"

text \<open>
  The structure of an announcement: the topic and the retain flag of each publish, in
  order; \<open>announced s s'\<close> is the structure of what was published between two states.
\<close>

fun shape :: "call \<Rightarrow> (string \<times> bool) option" where
  "shape (Publish t v r q) = Some (t, r)"
| "shape c = None"

definition announced :: "homie \<Rightarrow> homie \<Rightarrow> (string \<times> bool) list" where
  "announced s s' = List.map_filter shape (new_calls s s')"

text \<open>
  The invariant of the reachable states: a connected session has its callbacks installed,
  callbacks are installed by \<open>setup\<close> only, the wildcard is forced only after \<open>setup\<close>,
  only on an empty subscription list and only where the configured qos converts, and the
  topic root is \<open>baseTopic/deviceId\<close>.
\<close>

definition converts :: "conversion \<Rightarrow> pyval \<Rightarrow> bool" where
  "converts int_str v = (case py_int int_str v of Inl e \<Rightarrow> False | Inr n \<Rightarrow> True)"

definition session_inv :: "conversion \<Rightarrow> homie \<Rightarrow> bool" where
  "session_inv int_str s \<longleftrightarrow>
     (mqtt_connected s \<longrightarrow> callbacks_set s) \<and>
     (callbacks_set s \<longrightarrow> setupCalled s) \<and>
     (subscribe_all_forced s \<longrightarrow>
        setupCalled s \<and> subscriptions s = [] \<and> converts int_str (qos s)) \<and>
     mqtt_topic s = baseTopic s @ ''/'' @ deviceId s"

text \<open>Two observations on a trace: the connect attempts and the sleeps.\<close>

fun is_connect :: "call \<Rightarrow> bool" where
  "is_connect (Connect h p k) = True"
| "is_connect c = False"

fun is_sleep :: "call \<Rightarrow> bool" where
  "is_sleep (Sleep n) = True"
| "is_sleep c = False"

section \<open>The example program \<open>relay_switch.py\<close>\<close>

text \<open>
  The device of \<open>src/relay_switch.py\<close>: a configuration file that names the broker only,
  no environment override. \<open>relay_start\<close> is its session object after construction
  (line 9 of the program), \<open>relay_ready\<close> the object after the node, the firmware and the
  subscription of the handler (number 0) are registered (lines 10, 24, 25).
\<close>

definition relay_config :: "string \<rightharpoonup> pyval" where
  "relay_config = [''HOST'' \<mapsto> PStr ''localhost'']"

definition fixed_gen :: "nat \<Rightarrow> string" where
  "fixed_gen k = ''0a1b2c3d''"

text \<open>
  \<open>example_int_str\<close> is Python's \<open>int(s)\<close> at the three strings that name an MQTT qos;
  the examples apply it to no other string: they leave qos at its default, the integer 1,
  set it to null in the configuration file, or override it with the string \<open>2\<close>.
\<close>

definition example_int_str :: conversion where
  "example_int_str s =
     (if s = ''0'' then Inr 0 else if s = ''1'' then Inr 1 else if s = ''2'' then Inr 2
      else Inl (ValueError s))"

definition relay_start :: homie where
  "relay_start =
     \<lparr>baseTopic = ''devices'', deviceId = ''xxxxxxxx'', deviceName = PStr ''xxxxxxxx'',
      host = PStr ''localhost'', port = PInt 1883, username = PNone, password = PNone,
      qos = PInt 1, keepalive = PInt 60, ca_certs = PNone, subscribe_all = PBool False,
      fwname = None, fwversion = None, nodes = [], timers = [], subscriptions = [],
      subscribe_all_forced = False, statsInterval = 60, mqtt_topic = ''devices/xxxxxxxx'',
      setupCalled = False, mqtt_connected = False, mqtt_subscribed = False,
      callbacks_set = False, calls = []\<rparr>"

definition switchNode :: node where
  "switchNode = \<lparr>nodeId = ''switch'', nodeType = ''switch'', props = []\<rparr>"

definition relay_ready :: homie where
  "relay_ready =
     relay_start\<lparr>fwname := Some ''relay-switch'', fwversion := Some ''1.0.0'',
       nodes := [switchNode],
       subscriptions := [(''devices/xxxxxxxx/switch/on/set'', 1)],
       calls := [MessageCallbackAdd ''devices/xxxxxxxx/switch/on/set'' 0]\<rparr>"

text \<open>
  Three hosts. On \<open>linux_host\<close> the file \<open>/proc/net/wireless\<close> has the three lines the
  kernel writes for one interface; on \<open>loud_host\<close> the link quality of that line is 150;
  on \<open>broken_host\<close> the third line is cut after the second field. \<open>example_int_float\<close>
  is Python's \<open>int(float(s))\<close> at the two fields the examples convert (\<open>70.\<close> and
  \<open>150.\<close>); the examples apply it to no other string.
\<close>

definition example_int_float :: conversion where
  "example_int_float f =
     (if f = ''70.'' then Inr 70 else if f = ''150.'' then Inr 150 else Inl (ValueError f))"

definition linux_host :: platform where
  "linux_host =
     \<lparr>wireless = Some [''Inter-| sta-|   Quality        |   Discarded packets'',
                        '' face | tus | link level noise |  nwid  crypt   frag'',
                        ''wlan0: 0000   70.  -40.  -256        0      0      0''],
      int_float = example_int_float,
      local_ip = PStr ''192.168.0.7'',
      local_mac = PStr ''b8:27:eb:00:00:01'',
      elapsed = 0\<rparr>"

definition loud_host :: platform where
  "loud_host =
     linux_host\<lparr>wireless :=
       Some [''Inter-| sta-|   Quality        |   Discarded packets'',
             '' face | tus | link level noise |  nwid  crypt   frag'',
             ''wlan0: 0000  150.  -40.  -256        0      0      0'']\<rparr>"


text \<open>
  Further states of the example device: \<open>relay_after_setup\<close> is \<open>relay_start\<close> after
  \<open>setup()\<close> with a broker that accepts the first connect; \<open>sensor_online\<close> is a device
  that registers no subscription, after \<open>setup()\<close> and the first connected callback;
  \<open>two_nodes\<close> is \<open>relay_ready\<close> with the two nodes \<open>example_nodes\<close>, which have
  declared properties, and \<open>two_nodes_setup\<close> is that device after \<open>setup()\<close>.
\<close>

definition relay_after_setup :: homie where
  "relay_after_setup =
     relay_start\<lparr>timers := [(''uptimeTimer'', 60), (''signalTimer'', 60)],
        setupCalled := True, callbacks_set := True,
        calls := [WillSet ''devices/xxxxxxxx/$online'' (PStr ''false'') True,
                  Connect (PStr ''localhost'') (PInt 1883) (PInt 60), LoopStart,
                  TimerStart ''uptimeTimer'', TimerStart ''signalTimer'']\<rparr>"

definition sensor_online :: homie where
  "sensor_online =
     snd (run_op example_int_str (CbConnected linux_host)
            (snd (run_op example_int_str (OpSetup None None) relay_start)))"

definition example_nodes :: "node list" where
  "example_nodes =
     [\<lparr>nodeId = ''switch'', nodeType = ''switch'',
       props = [\<lparr>p_name = ''on'', p_value = PStr ''false'', p_retain = True\<rparr>]\<rparr>,
      \<lparr>nodeId = ''climate'', nodeType = ''sensor'',
       props = [\<lparr>p_name = ''temperature'', p_value = PInt 21, p_retain = True\<rparr>,
                \<lparr>p_name = ''humidity'', p_value = PInt 40, p_retain = False\<rparr>]\<rparr>]"

definition two_nodes :: homie where
  "two_nodes = relay_ready\<lparr>nodes := example_nodes\<rparr>"

definition two_nodes_setup :: homie where
  "two_nodes_setup =
     two_nodes\<lparr>timers := [(''uptimeTimer'', 60), (''signalTimer'', 60)],
        setupCalled := True, callbacks_set := True,
        calls := [MessageCallbackAdd ''devices/xxxxxxxx/switch/on/set'' 0,
                  WillSet ''devices/xxxxxxxx/$online'' (PStr ''false'') True,
                  Connect (PStr ''localhost'') (PInt 1883) (PInt 60), LoopStart,
                  TimerStart ''uptimeTimer'', TimerStart ''signalTimer'']\<rparr>"

text \<open>
  A device whose configuration file sets the qos to null: \<open>{"HOST": "localhost", "QOS":
  null}\<close>. \<open>null_qos_start\<close> is its session object after construction,
  \<open>null_qos_nodes\<close> the object after the two nodes are registered, their properties
  declared and \<open>setup()\<close> has run, \<open>null_qos_online\<close> the object after \<open>setup()\<close> and a
  connected callback.
\<close>

definition null_qos_config :: "string \<rightharpoonup> pyval" where
  "null_qos_config = [''HOST'' \<mapsto> PStr ''localhost'', ''QOS'' \<mapsto> PNone]"

definition null_qos_start :: homie where
  "null_qos_start = relay_start\<lparr>qos := PNone\<rparr>"

definition null_qos_nodes :: homie where
  "null_qos_nodes = relay_after_setup\<lparr>qos := PNone, nodes := example_nodes\<rparr>"

definition null_qos_online :: homie where
  "null_qos_online = relay_after_setup\<lparr>qos := PNone, mqtt_connected := True\<rparr>"
section \<open>Configuration and construction: lemmas\<close>

lemmas initAttrs_defs = u_initAttrs_def DEFAULT_PREFS_def setattr_homie_def deviceId_setter_def
  pref_val_def getenv_def config_get_def

lemma xxxxxxxx_valid: "isValidIdentifier ''xxxxxxxx''"
  by (simp add: isValidIdentifier_def is_lower_alnum_def)

lemma getattr_deviceId:
  "getattr (u_initAttrs env config gen ob) ''deviceId'' =
     (if isIdFormat (pref_val env config ''DEVICE_ID'' (PStr ''xxxxxxxx''))
      then pref_val env config ''DEVICE_ID'' (PStr ''xxxxxxxx'')
      else PStr (gen (gen_calls ob)))"
  by (simp add: getattr_def u_initAttrs_def DEFAULT_PREFS_def setattr_homie_def deviceId_setter_def)

lemma isIdFormat_PStr: "isIdFormat v \<Longrightarrow> \<exists>s. v = PStr s"
  by (cases v) simp_all

lemma getattr_deviceId_str: "\<exists>d. getattr (u_initAttrs env config gen ob) ''deviceId'' = PStr d"
  by (auto simp: getattr_deviceId dest: isIdFormat_PStr)

lemma getattr_host:
  "getattr (u_initAttrs env config gen ob) ''host'' = pref_val env config ''HOST'' PNone"
  by (simp add: getattr_def u_initAttrs_def DEFAULT_PREFS_def setattr_homie_def deviceId_setter_def)

lemma getattr_baseTopic:
  "getattr (u_initAttrs env config gen ob) ''baseTopic'' =
     pref_val env config ''TOPIC'' (PStr ''devices'')"
  by (simp add: getattr_def u_initAttrs_def DEFAULT_PREFS_def setattr_homie_def deviceId_setter_def)

lemma gen_calls_blank: "gen_calls (blank_attributes gen) = 1"
  by (simp add: blank_attributes_def setattr_homie_def deviceId_setter_def)

lemma gen_calls_default:
  "env ''HOMIE_DEVICE_ID'' = None \<Longrightarrow> config ''DEVICE_ID'' = None \<Longrightarrow>
   gen_calls (u_initAttrs env config gen ob) = gen_calls ob"
  by (simp add: initAttrs_defs xxxxxxxx_valid)

lemma getattr_deviceId_default:
  "env ''HOMIE_DEVICE_ID'' = None \<Longrightarrow> config ''DEVICE_ID'' = None \<Longrightarrow>
   getattr (u_initAttrs env config gen ob) ''deviceId'' = PStr ''xxxxxxxx''"
  by (simp add: getattr_deviceId pref_val_def getenv_def config_get_def xxxxxxxx_valid)

lemma relay_start_constructed:
  "\<exists>evs c. init Map.empty relay_config fixed_gen None = (evs, Inr c) \<and>
           session_of c = relay_start"
  by (simp add: init_def Let_def getattr_def initAttrs_defs blank_attributes_def relay_config_def
      isValidIdentifier_def is_lower_alnum_def session_of_def relay_start_def fixed_gen_def)

lemma reachable_relay_start: "reachable int_str relay_start"
proof -
  obtain evs c where i: "init Map.empty relay_config fixed_gen None = (evs, Inr c)"
    and c: "session_of c = relay_start"
    using relay_start_constructed by blast
  from i have "reachable int_str (session_of c)" by (rule reachable.constructed)
  with c show ?thesis by simp
qed

lemma null_qos_start_constructed:
  "\<exists>evs c. init Map.empty null_qos_config fixed_gen None = (evs, Inr c) \<and>
           session_of c = null_qos_start"
  by (simp add: init_def Let_def getattr_def initAttrs_defs blank_attributes_def null_qos_config_def
      isValidIdentifier_def is_lower_alnum_def session_of_def relay_start_def fixed_gen_def
      null_qos_start_def)

lemma reachable_null_qos_start: "reachable int_str null_qos_start"
proof -
  obtain evs c where i: "init Map.empty null_qos_config fixed_gen None = (evs, Inr c)"
    and c: "session_of c = null_qos_start"
    using null_qos_start_constructed by blast
  from i have "reachable int_str (session_of c)" by (rule reachable.constructed)
  with c show ?thesis by simp
qed

lemma relay_constructed:
  "snd (init Map.empty relay_config fixed_gen None) =
     Inr \<lparr>c_obj = u_initAttrs Map.empty relay_config fixed_gen (blank_attributes fixed_gen),
          c_baseTopic = ''devices'', c_deviceId = ''xxxxxxxx'',
          c_mqtt_topic = ''devices/xxxxxxxx'', c_clientId = ''Homie-xxxxxxxx''\<rparr>"
  by (simp add: init_def Let_def getattr_host getattr_baseTopic getattr_deviceId_default
      pref_val_def getenv_def config_get_def relay_config_def)

section \<open>Configuration and construction: the claims\<close>

text \<open>
  Claim C7. Construction with an empty or missing host fails with the configuration error
  (\<open>ValueError("No host specified.")\<close> in the code) before any session activity: the only
  effects are the exit hook and the two signal handlers registered on entry, no topic root
  is computed and no transport client is created, and no object is returned. The host is
  the value \<open>_initAttrs\<close> resolves for \<open>HOST\<close>; a missing host resolves to \<open>None\<close>, and
  \<open>None\<close> and the empty string are falsy. With a truthy (non-empty) host the host check
  does not raise: the constructor can end in that error only if creating the transport
  client raises it.
\<close>

theorem missing_host_rejected:
  "(\<not> py_truthy (pref_val env config ''HOST'' PNone) \<longrightarrow>
      init env config gen mk =
        ([AtexitRegister, SignalInstall ''SIGTERM'', SignalInstall ''SIGHUP''],
         Inl (ValueError ''No host specified.''))) \<and>
   (py_truthy (pref_val env config ''HOST'' PNone) \<longrightarrow>
      snd (init env config gen mk) = Inl (ValueError ''No host specified.'') \<longrightarrow>
      mk = Some (ValueError ''No host specified.''))"
proof -
  obtain d where d: "getattr (u_initAttrs env config gen (blank_attributes gen)) ''deviceId'' = PStr d"
    using getattr_deviceId_str by blast
  show ?thesis
    by (cases "pref_val env config ''TOPIC'' (PStr ''devices'')")
       (auto simp: init_def Let_def getattr_host getattr_baseTopic d split: option.splits)
qed

theorem missing_host_rejected_witness:
  "init Map.empty Map.empty fixed_gen None =
     ([AtexitRegister, SignalInstall ''SIGTERM'', SignalInstall ''SIGHUP''],
      Inl (ValueError ''No host specified.'')) \<and>
   init [''HOMIE_HOST'' \<mapsto> ''''] relay_config fixed_gen None =
     ([AtexitRegister, SignalInstall ''SIGTERM'', SignalInstall ''SIGHUP''],
      Inl (ValueError ''No host specified.'')) \<and>
   snd (init Map.empty relay_config fixed_gen None) \<noteq> Inl (ValueError ''No host specified.'')"
  using missing_host_rejected [of Map.empty Map.empty fixed_gen None]
    missing_host_rejected [of "[''HOMIE_HOST'' \<mapsto> '''']" relay_config fixed_gen None]
    missing_host_rejected [of Map.empty relay_config fixed_gen None]
  by (simp add: pref_val_def getenv_def config_get_def relay_config_def)

text \<open>
  Claim C8, as amended. For each recognized option other than \<open>deviceId\<close>, the resolved
  value is the environment override \<open>HOMIE_<PREF>\<close> when present, otherwise the value the
  configuration file stores under the preference name \<open><PREF>\<close> (the upper-case key of
  \<open>DEFAULT_PREFS\<close>: \<open>HOST\<close>, \<open>TOPIC\<close> for \<open>baseTopic\<close>, ...) when present, otherwise the
  built-in default. \<open>deviceId\<close> is resolved the same way and then validated: a value in
  identifier format is kept, any other is replaced by a generated identifier.
\<close>

theorem layered_lookup:
  "(\<forall>(pref, k, dflt) \<in> set DEFAULT_PREFS.
      k \<noteq> ''deviceId'' \<longrightarrow>
      attr (u_initAttrs env config gen ob) k =
        Some (case env (''HOMIE_'' @ pref) of
                Some v \<Rightarrow> PStr v
              | None \<Rightarrow> (case config pref of Some v \<Rightarrow> v | None \<Rightarrow> dflt))) \<and>
   attr (u_initAttrs env config gen ob) ''deviceId'' =
     Some (let v = (case env ''HOMIE_DEVICE_ID'' of
                      Some v \<Rightarrow> PStr v
                    | None \<Rightarrow> (case config ''DEVICE_ID'' of
                                 Some v \<Rightarrow> v
                               | None \<Rightarrow> PStr ''xxxxxxxx''))
           in if isIdFormat v then v else PStr (gen (gen_calls ob)))"
  by (simp add: initAttrs_defs Let_def)

theorem layered_lookup_witness:
  "attr (u_initAttrs [''HOMIE_PORT'' \<mapsto> ''8883'']
           [''PORT'' \<mapsto> PInt 1884, ''KEEPALIVE'' \<mapsto> PInt 30] fixed_gen
           (blank_attributes fixed_gen)) ''port'' = Some (PStr ''8883'') \<and>
   attr (u_initAttrs [''HOMIE_PORT'' \<mapsto> ''8883'']
           [''PORT'' \<mapsto> PInt 1884, ''KEEPALIVE'' \<mapsto> PInt 30] fixed_gen
           (blank_attributes fixed_gen)) ''keepalive'' = Some (PInt 30) \<and>
   attr (u_initAttrs [''HOMIE_PORT'' \<mapsto> ''8883'']
           [''PORT'' \<mapsto> PInt 1884, ''KEEPALIVE'' \<mapsto> PInt 30] fixed_gen
           (blank_attributes fixed_gen)) ''qos'' = Some (PInt 1)"
  using layered_lookup [of "[''HOMIE_PORT'' \<mapsto> ''8883'']"
      "[''PORT'' \<mapsto> PInt 1884, ''KEEPALIVE'' \<mapsto> PInt 30]" fixed_gen "blank_attributes fixed_gen"]
  by (simp add: DEFAULT_PREFS_def)

text \<open>
  The claim as it is stated fails twice. A file that stores the broker under the option's
  attribute name \<open>host\<close> is not read: the host stays \<open>None\<close>. And an environment override
  of \<open>deviceId\<close> that is no identifier is not the resolved value: the generated identifier
  is.
\<close>

theorem layered_lookup_counterexample:
  "attr (u_initAttrs Map.empty [''host'' \<mapsto> PStr ''broker''] fixed_gen
          (blank_attributes fixed_gen)) ''host'' = Some PNone \<and>
   attr (u_initAttrs [''HOMIE_DEVICE_ID'' \<mapsto> ''bad_ID!''] Map.empty fixed_gen
          (blank_attributes fixed_gen)) ''deviceId'' = Some (PStr ''0a1b2c3d'')"
  by (simp add: initAttrs_defs isValidIdentifier_def is_lower_alnum_def fixed_gen_def)

text \<open>
  Claim C10, as amended. When neither the environment (\<open>HOMIE_DEVICE_ID\<close>) nor the
  configuration file (\<open>DEVICE_ID\<close>) provides a device id, \<open>_initAttrs\<close> resolves the
  built-in default \<open>xxxxxxxx\<close>; it satisfies the identifier format, so the setter keeps
  it and resolving it does not invoke the generator: the count of generator calls is what
  it was before \<open>_initAttrs\<close>. That count is 1 in every construction, because the initial
  assignment \<open>self.deviceId = None\<close> of line 62 passes through the same setter and has
  invoked the generator once; the identifier generated there is replaced by the default.
  So every unconfigured device that is constructed has the identifier \<open>xxxxxxxx\<close>,
  whatever the generator returns, and exactly one generator call. Likewise the device
  name defaults to \<open>xxxxxxxx\<close>.
\<close>

theorem default_deviceId:
  "isIdFormat (PStr ''xxxxxxxx'') \<and>
   gen_calls (blank_attributes gen) = 1 \<and>
   attr (blank_attributes gen) ''deviceId'' = Some (PStr (gen 0)) \<and>
   (env ''HOMIE_DEVICE_ID'' = None \<and> config ''DEVICE_ID'' = None \<longrightarrow>
      attr (u_initAttrs env config gen ob) ''deviceId'' = Some (PStr ''xxxxxxxx'') \<and>
      gen_calls (u_initAttrs env config gen ob) = gen_calls ob \<and>
      (snd (init env config gen mk) = Inr c \<longrightarrow>
         c_deviceId c = ''xxxxxxxx'' \<and>
         attr (c_obj c) ''deviceId'' = Some (PStr ''xxxxxxxx'') \<and>
         gen_calls (c_obj c) = 1)) \<and>
   (env ''HOMIE_DEVICE_NAME'' = None \<and> config ''DEVICE_NAME'' = None \<longrightarrow>
      attr (u_initAttrs env config gen ob) ''deviceName'' = Some (PStr ''xxxxxxxx''))"
proof -
  have a: "isIdFormat (PStr ''xxxxxxxx'')"
    by (simp add: xxxxxxxx_valid)
  have b: "gen_calls (blank_attributes gen) = 1"
    "attr (blank_attributes gen) ''deviceId'' = Some (PStr (gen 0))"
    by (simp_all add: blank_attributes_def setattr_homie_def deviceId_setter_def)
  have c: "attr (u_initAttrs env config gen ob) ''deviceId'' = Some (PStr ''xxxxxxxx'') \<and>
      gen_calls (u_initAttrs env config gen ob) = gen_calls ob"
    if "env ''HOMIE_DEVICE_ID'' = None" "config ''DEVICE_ID'' = None" for ob
    using that by (simp add: initAttrs_defs xxxxxxxx_valid)
  have d: "c_deviceId c = ''xxxxxxxx'' \<and>
      attr (c_obj c) ''deviceId'' = Some (PStr ''xxxxxxxx'') \<and> gen_calls (c_obj c) = 1"
    if n: "env ''HOMIE_DEVICE_ID'' = None" "config ''DEVICE_ID'' = None"
      and i: "snd (init env config gen mk) = Inr c"
  proof -
    have o: "c_obj c = u_initAttrs env config gen (blank_attributes gen) \<and>
        c_deviceId c = ''xxxxxxxx''"
      using i
      by (cases "pref_val env config ''TOPIC'' (PStr ''devices'')")
         (auto simp: init_def Let_def getattr_baseTopic
           getattr_deviceId_default [of env config, OF n] split: if_splits option.splits)
    with c [of "blank_attributes gen", OF n] b show ?thesis by simp
  qed
  have e: "attr (u_initAttrs env config gen ob) ''deviceName'' = Some (PStr ''xxxxxxxx'')"
    if "env ''HOMIE_DEVICE_NAME'' = None" "config ''DEVICE_NAME'' = None"
    using that by (simp add: initAttrs_defs)
  from a b c d e show ?thesis by blast
qed

theorem default_deviceId_witness:
  "attr (u_initAttrs Map.empty relay_config fixed_gen (blank_attributes fixed_gen)) ''deviceId'' =
     Some (PStr ''xxxxxxxx'') \<and>
   gen_calls (u_initAttrs Map.empty relay_config fixed_gen (blank_attributes fixed_gen)) = 1 \<and>
   c_deviceId (projr (snd (init Map.empty relay_config fixed_gen None))) = ''xxxxxxxx'' \<and>
   gen_calls (c_obj (projr (snd (init Map.empty relay_config fixed_gen None)))) = 1 \<and>
   attr (u_initAttrs Map.empty relay_config fixed_gen (blank_attributes fixed_gen)) ''deviceName'' =
     Some (PStr ''xxxxxxxx'')"
  using default_deviceId [of fixed_gen Map.empty relay_config "blank_attributes fixed_gen" None
      "projr (snd (init Map.empty relay_config fixed_gen None))"]
  by (simp add: relay_config_def relay_constructed [unfolded relay_config_def])

text \<open>
  The claim as it is stated says that the generator is never invoked for an unconfigured
  device. It is invoked once: the object that the constructor returns for the configuration
  of the example program, which provides no device id, has one generator call, made by
  the initial assignment of \<open>None\<close>, which stored the generated identifier before
  \<open>_initAttrs\<close> replaced it.
\<close>

theorem default_deviceId_counterexample:
  "relay_config ''DEVICE_ID'' = None \<and>
   \<not> isl (snd (init Map.empty relay_config fixed_gen None)) \<and>
   gen_calls (c_obj (projr (snd (init Map.empty relay_config fixed_gen None)))) = 1 \<and>
   attr (blank_attributes fixed_gen) ''deviceId'' = Some (PStr ''0a1b2c3d'')"
proof -
  have n: "relay_config ''DEVICE_ID'' = None"
    by (simp add: relay_config_def)
  have "gen_calls (u_initAttrs Map.empty relay_config fixed_gen (blank_attributes fixed_gen)) = 1"
    using n by (simp add: gen_calls_default gen_calls_blank)
  moreover have "attr (blank_attributes fixed_gen) ''deviceId'' = Some (PStr ''0a1b2c3d'')"
    by (simp add: blank_attributes_def setattr_homie_def deviceId_setter_def fixed_gen_def)
  ultimately show ?thesis
    using n by (simp add: relay_constructed)
qed
section \<open>The session core: lemmas\<close>

lemma publish_connected:
  "mqtt_connected s \<Longrightarrow> py_int int_str (qos s) = Inr n \<Longrightarrow>
   publish int_str t v r q s =
     (None, s\<lparr>calls := calls s @ [Publish t v r (case q of None \<Rightarrow> n | Some q' \<Rightarrow> q')]\<rparr>)"
  by (simp add: publish_def do_call_def split: option.splits)

lemma publish_disconnected: "\<not> mqtt_connected s \<Longrightarrow> publish int_str t v r q s = (None, s)"
  by (simp add: publish_def ok_def)

lemma publish_raises:
  "mqtt_connected s \<Longrightarrow> py_int int_str (qos s) = Inl e \<Longrightarrow>
   publish int_str t v r None s = (Some e, s)"
  by (simp add: publish_def raise_error_def)

lemma publish_frame:
  "snd (publish int_str t v r q s) = s\<lparr>calls := calls (snd (publish int_str t v r q s))\<rparr>"
  by (simp add: publish_def do_call_def ok_def raise_error_def split: option.splits sum.splits)

lemma publish_root:
  "mqtt_connected s \<Longrightarrow> py_int int_str (qos s) = Inr q \<Longrightarrow> mqtt_topic s = root \<Longrightarrow>
   publish int_str (root @ suffix) v True None s =
     (None, s\<lparr>calls := calls s @ [retained root q suffix v]\<rparr>)"
  by (simp add: publish_connected retained_def)

lemma setNodeProperty_connected:
  "mqtt_connected s \<Longrightarrow> py_int int_str (qos s) = Inr q \<Longrightarrow>
   setNodeProperty int_str n prop v r s =
     (None, s\<lparr>calls := calls s @
        [Publish (mqtt_topic s @ ''/'' @ nodeId n @ ''/'' @ prop) v
           (case r of None \<Rightarrow> True | Some b \<Rightarrow> b) q]\<rparr>)"
  by (simp add: setNodeProperty_def publish_connected)

lemma setNodeProperty_raises:
  "mqtt_connected s \<Longrightarrow> py_int int_str (qos s) = Inl e \<Longrightarrow>
   setNodeProperty int_str n prop v r s = (Some e, s)"
  by (simp add: setNodeProperty_def publish_raises)

lemma send_list:
  "mqtt_connected s \<Longrightarrow> py_int int_str (qos s) = Inr q \<Longrightarrow>
   seqs (map (\<lambda>p. setNodeProperty int_str n (p_name p) (p_value p) (Some True)) ps) s =
     (None, s\<lparr>calls := calls s @
        map (\<lambda>p. retained (mqtt_topic s) q (''/'' @ nodeId n @ ''/'' @ p_name p) (p_value p)) ps\<rparr>)"
proof (induction ps arbitrary: s)
  case Nil
  then show ?case by simp
next
  case (Cons p ps)
  show ?case
    using Cons.prems
    by (simp add: setNodeProperty_connected Cons.IH retained_def)
qed

lemma sendProperties_connected:
  "mqtt_connected s \<Longrightarrow> py_int int_str (qos s) = Inr q \<Longrightarrow>
   sendProperties int_str n s =
     (None, s\<lparr>calls := calls s @ property_calls (mqtt_topic s) q n\<rparr>)"
  by (simp add: sendProperties_def send_list property_calls_def)

lemma send_all:
  "mqtt_connected s \<Longrightarrow> py_int int_str (qos s) = Inr q \<Longrightarrow>
   seqs (map (sendProperties int_str) ns) s =
     (None, s\<lparr>calls := calls s @ concat (map (property_calls (mqtt_topic s) q) ns)\<rparr>)"
proof (induction ns arbitrary: s)
  case Nil
  then show ?case by simp
next
  case (Cons n ns)
  show ?case
    using Cons.prems by (simp add: sendProperties_connected Cons.IH)
qed

lemma publishNodes_connected:
  "mqtt_connected s \<Longrightarrow> py_int int_str (qos s) = Inr q \<Longrightarrow>
   publishNodes int_str s =
     (None, s\<lparr>calls := calls s @
        retained (mqtt_topic s) q ''/$nodes'' (PStr (join '','' (map nodeId (nodes s)))) #
        concat (map (property_calls (mqtt_topic s) q) (nodes s))\<rparr>)"
  by (simp add: publishNodes_def publish_root send_all)

lemma publishFwname_connected:
  "mqtt_connected s \<Longrightarrow> py_int int_str (qos s) = Inr q \<Longrightarrow>
   publishFwname int_str s =
     (None, s\<lparr>calls := calls s @ firmware_calls (mqtt_topic s) q (fwname s) ''/$fw/name''\<rparr>)"
  by (simp add: publishFwname_def publish_root firmware_calls_def ok_def split: option.splits)

lemma publishFwversion_connected:
  "mqtt_connected s \<Longrightarrow> py_int int_str (qos s) = Inr q \<Longrightarrow>
   publishFwversion int_str s =
     (None, s\<lparr>calls := calls s @
        firmware_calls (mqtt_topic s) q (fwversion s) ''/$fw/version''\<rparr>)"
  by (simp add: publishFwversion_def publish_root firmware_calls_def ok_def split: option.splits)

lemma u_subscribe_list:
  "subscriptions s \<noteq> [] \<Longrightarrow>
   u_subscribe int_str s =
     (None, s\<lparr>calls := calls s @ SubscribeList (subscriptions s) #
                (if subscribe_all_forced s \<and> \<not> py_truthy (subscribe_all s)
                 then [Unsubscribe (mqtt_topic s @ ''/#'')] else [])\<rparr>)"
  by (simp add: u_subscribe_def do_call_def u_unsubscribe_def ok_def)

lemma u_subscribe_wildcard:
  "subscriptions s = [] \<Longrightarrow> py_int int_str (qos s) = Inr q \<Longrightarrow>
   u_subscribe int_str s =
     (None, s\<lparr>calls := calls s @ [SubscribeTopic (mqtt_topic s @ ''/#'') q],
              subscribe_all_forced := True\<rparr>)"
  by (simp add: u_subscribe_def do_call_def ok_def)

lemma u_subscribe_raises:
  "subscriptions s = [] \<Longrightarrow> py_int int_str (qos s) = Inl e \<Longrightarrow>
   u_subscribe int_str s = (Some e, s)"
  by (simp add: u_subscribe_def raise_error_def)

lemma u_subscribe_eq:
  "py_int int_str (qos s) = Inr q \<Longrightarrow>
   u_subscribe int_str s =
     (None, s\<lparr>subscribe_all_forced := (subscriptions s = [] \<or> subscribe_all_forced s),
              calls := calls s @ subscription_calls q s\<rparr>)"
  by (simp add: u_subscribe_def subscription_calls_def do_call_def u_unsubscribe_def ok_def)

lemma publishSignal_ok:
  "signal_payload (int_float os) (wireless os) = Inr p \<Longrightarrow> mqtt_connected s \<Longrightarrow>
   py_int int_str (qos s) = Inr q \<Longrightarrow> mqtt_topic s = root \<Longrightarrow>
   publishSignal int_str os s =
     (None, s\<lparr>calls := calls s @ [retained root q ''/$stats/signal'' (PInt p)]\<rparr>)"
  by (simp add: publishSignal_def publish_root)

lemma publishSignal_raises:
  "signal_payload (int_float os) (wireless os) = Inl e \<Longrightarrow>
   publishSignal int_str os s = (Some e, s)"
  by (simp add: publishSignal_def raise_error_def)

lemmas announce_defs = publishHomieVersion_def HOMIE_VERSION_def publishLocalipAndMac_def
  publishStatsInterval_def publishUptime_def publishImplementation_def

lemmas announce_simps = publish_root publishFwname_connected publishFwversion_connected
  publishNodes_connected

lemma u_connected_eq:
  assumes q: "py_int int_str (qos s) = Inr q"
  shows "u_connected int_str os s =
     (case signal_payload (int_float os) (wireless os) of Inl e \<Rightarrow> Some e | Inr p \<Rightarrow> None,
      s\<lparr>mqtt_connected := True,
        subscribe_all_forced :=
          ((\<not> mqtt_subscribed s \<and> subscriptions s = []) \<or> subscribe_all_forced s),
        calls := calls s @ (if mqtt_subscribed s then [] else subscription_calls q s) @
                 announcement q os s\<rparr>)"
proof (cases "signal_payload (int_float os) (wireless os)")
  case (Inl e)
  show ?thesis
  proof (cases "mqtt_subscribed s")
    case True
    then show ?thesis
      using q
      by (simp add: u_connected_def ok_def announce_defs announce_simps
          publishSignal_raises [OF Inl] Inl announcement_def signal_calls_def)
  next
    case False
    then show ?thesis
      using q
      by (simp add: u_connected_def ok_def u_subscribe_eq announce_defs announce_simps
          publishSignal_raises [OF Inl] Inl announcement_def signal_calls_def
          subscription_calls_def)
  qed
next
  case (Inr p)
  show ?thesis
  proof (cases "mqtt_subscribed s")
    case True
    then show ?thesis
      using q
      by (simp add: u_connected_def ok_def announce_defs announce_simps
          publishSignal_ok [OF Inr] Inr announcement_def signal_calls_def)
  next
    case False
    then show ?thesis
      using q
      by (simp add: u_connected_def ok_def u_subscribe_eq announce_defs announce_simps
          publishSignal_ok [OF Inr] Inr announcement_def signal_calls_def
          subscription_calls_def)
  qed
qed

lemma u_connected_raises:
  assumes e: "py_int int_str (qos s) = Inl e"
  shows "u_connected int_str os s =
     (Some e,
      s\<lparr>mqtt_connected := True,
        calls := calls s @
          (if mqtt_subscribed s \<or> subscriptions s = [] then []
           else SubscribeList (subscriptions s) #
                (if subscribe_all_forced s \<and> \<not> py_truthy (subscribe_all s)
                 then [Unsubscribe (mqtt_topic s @ ''/#'')] else []))\<rparr>)"
proof (cases "mqtt_subscribed s")
  case True
  then show ?thesis
    using e by (simp add: u_connected_def ok_def publish_raises)
next
  case False
  show ?thesis
  proof (cases "subscriptions s = []")
    case True
    then show ?thesis
      using e False by (simp add: u_connected_def ok_def u_subscribe_raises)
  next
    case nonempty: False
    then show ?thesis
      using e False by (simp add: u_connected_def ok_def u_subscribe_list publish_raises)
  qed
qed

lemma subscribe_after_setup:
  "setupCalled s \<Longrightarrow> subscribe int_str n a cb q s = (Some (BaseException ''subscribe''), s)"
  by (simp add: subscribe_def u_checkBeforeSetup_def raise_error_def)

lemma subscribeProperty_after_setup:
  "setupCalled s \<Longrightarrow>
   subscribeProperty int_str n a cb q s = (Some (BaseException ''subscribeProperty''), s)"
  by (simp add: subscribeProperty_def u_checkBeforeSetup_def raise_error_def)

lemma register_disconnected:
  "\<not> mqtt_connected s \<Longrightarrow>
   register_subscription int_str t cb q s =
     (case (case q of None \<Rightarrow> py_int int_str (qos s) | Some q' \<Rightarrow> Inr q') of
        Inl e \<Rightarrow> (Some e, s)
      | Inr n \<Rightarrow>
          (None, s\<lparr>subscriptions :=
                     (if \<not> py_truthy (subscribe_all s) then subscriptions s @ [(t, n)]
                      else subscriptions s),
                   calls := calls s @ [MessageCallbackAdd t cb]\<rparr>))"
  by (simp add: register_subscription_def ok_def do_call_def raise_error_def
      split: option.splits sum.splits)

lemma inv_register:
  "session_inv int_str s \<Longrightarrow> \<not> setupCalled s \<Longrightarrow>
   session_inv int_str (snd (register_subscription int_str t cb q s))"
proof -
  assume inv: "session_inv int_str s" and n: "\<not> setupCalled s"
  then have d: "\<not> mqtt_connected s"
    by (auto simp: session_inv_def)
  show ?thesis
    using inv n
    by (auto simp: register_disconnected [OF d] session_inv_def split: option.splits sum.splits)
qed

lemma inv_subscribe:
  "session_inv int_str s \<Longrightarrow> session_inv int_str (snd (subscribe int_str n a cb q s))"
proof (cases "setupCalled s")
  case True
  then show "session_inv int_str s \<Longrightarrow> ?thesis"
    by (simp add: subscribe_after_setup)
next
  case False
  assume inv: "session_inv int_str s"
  have "subscribe int_str n a cb q s =
      register_subscription int_str (join ''/'' [mqtt_topic s, nodeId n, a, ''set'']) cb q s"
    using False
    by (cases "register_subscription int_str (join ''/'' [mqtt_topic s, nodeId n, a, ''set'']) cb q s";
        cases "fst (register_subscription int_str (join ''/'' [mqtt_topic s, nodeId n, a, ''set'']) cb q s)")
       (simp_all add: subscribe_def u_checkBeforeSetup_def ok_def)
  then show ?thesis
    using inv_register [OF inv False] by simp
qed

lemma inv_subscribeProperty:
  "session_inv int_str s \<Longrightarrow> session_inv int_str (snd (subscribeProperty int_str n a cb q s))"
proof (cases "setupCalled s")
  case True
  then show "session_inv int_str s \<Longrightarrow> ?thesis"
    by (simp add: subscribeProperty_after_setup)
next
  case False
  assume inv: "session_inv int_str s"
  have "subscribeProperty int_str n a cb q s =
      register_subscription int_str (join ''/'' [mqtt_topic s, nodeId n, a]) cb q s"
    using False
    by (cases "register_subscription int_str (join ''/'' [mqtt_topic s, nodeId n, a]) cb q s";
        cases "fst (register_subscription int_str (join ''/'' [mqtt_topic s, nodeId n, a]) cb q s)")
       (simp_all add: subscribeProperty_def u_checkBeforeSetup_def ok_def)
  then show ?thesis
    using inv_register [OF inv False] by simp
qed

lemma connect_with_retry_frame:
  "\<exists>r cs. connect_with_retry r1 r2 s = (r, s\<lparr>calls := calls s @ cs\<rparr>)"
proof (cases r1)
  case None
  have "connect_with_retry None r2 s =
          (None, s\<lparr>calls := calls s @ [Connect (host s) (port s) (keepalive s)]\<rparr>)"
    by (simp add: connect_with_retry_def connect_attempt_def)
  with None show ?thesis by blast
next
  case (Some e)
  show ?thesis
  proof (cases "is_EnvironmentError e")
    case True
    have "connect_with_retry (Some e) r2 s =
            (r2, s\<lparr>calls := calls s @ [Connect (host s) (port s) (keepalive s), Sleep 10,
                                         Connect (host s) (port s) (keepalive s)]\<rparr>)"
      using True by (cases r2) (simp_all add: connect_with_retry_def connect_attempt_def do_call_def)
    with Some show ?thesis by blast
  next
    case False
    have "connect_with_retry (Some e) r2 s =
            (Some e, s\<lparr>calls := calls s @ [Connect (host s) (port s) (keepalive s)]\<rparr>)"
      using False by (simp add: connect_with_retry_def connect_attempt_def)
    with Some show ?thesis by blast
  qed
qed

lemma u_initialize_frame:
  "\<exists>r cs. u_initialize r1 r2 s = (r, s\<lparr>callbacks_set := True, calls := calls s @ cs\<rparr>)"
proof -
  let ?s1 = "s\<lparr>callbacks_set := True,
               calls := calls s @ WillSet (mqtt_topic s @ ''/$online'') (PStr ''false'') True #
                 (if py_truthy (username s) then [UsernamePwSet (username s) (password s)] else []) @
                 (if py_truthy (ca_certs s) then [TlsSet (ca_certs s)] else [])\<rparr>"
  obtain r cs where c: "connect_with_retry r1 r2 ?s1 = (r, ?s1\<lparr>calls := calls ?s1 @ cs\<rparr>)"
    using connect_with_retry_frame by blast
  have "u_initialize r1 r2 s =
          (case connect_with_retry r1 r2 ?s1 of
             (None, s') \<Rightarrow> seqs [do_call LoopStart] s'
           | (Some e, s') \<Rightarrow> (Some e, s'))"
    by (simp add: u_initialize_def do_call_def ok_def)
  then show ?thesis
    by (cases r) (auto simp: c do_call_def)
qed

lemma homie_setup_frame:
  "\<exists>r ts cs. homie_setup r1 r2 s =
     (r, s\<lparr>timers := timers s @ ts, setupCalled := True, callbacks_set := True,
            calls := calls s @ cs\<rparr>)"
proof -
  let ?s1 = "s\<lparr>setupCalled := True\<rparr>"
  obtain r cs where i: "u_initialize r1 r2 ?s1 = (r, ?s1\<lparr>callbacks_set := True, calls := calls ?s1 @ cs\<rparr>)"
    using u_initialize_frame by blast
  show ?thesis
  proof (cases r)
    case None
    have "homie_setup r1 r2 s =
       (None, s\<lparr>timers := timers s @ [(''uptimeTimer'', statsInterval s), (''signalTimer'', statsInterval s)],
            setupCalled := True, callbacks_set := True,
            calls := calls s @ (cs @ [TimerStart ''uptimeTimer'', TimerStart ''signalTimer''])\<rparr>)"
      using i None by (simp add: homie_setup_def ok_def Timer_def do_call_def)
    then show ?thesis by blast
  next
    case (Some e)
    have "homie_setup r1 r2 s =
       (Some e, s\<lparr>timers := timers s @ [], setupCalled := True, callbacks_set := True,
            calls := calls s @ cs\<rparr>)"
      using i Some by (simp add: homie_setup_def ok_def)
    then show ?thesis by blast
  qed
qed

lemma inv_setup:
  "session_inv int_str s \<Longrightarrow> session_inv int_str (snd (homie_setup r1 r2 s))"
proof -
  assume inv: "session_inv int_str s"
  obtain r ts cs where "homie_setup r1 r2 s =
     (r, s\<lparr>timers := timers s @ ts, setupCalled := True, callbacks_set := True,
            calls := calls s @ cs\<rparr>)"
    using homie_setup_frame by blast
  with inv show ?thesis
    by (simp add: session_inv_def)
qed

lemma inv_connected:
  "session_inv int_str s \<Longrightarrow> callbacks_set s \<Longrightarrow>
   session_inv int_str (snd (u_connected int_str os s))"
proof (cases "py_int int_str (qos s)")
  case (Inl e)
  then show "session_inv int_str s \<Longrightarrow> callbacks_set s \<Longrightarrow> ?thesis"
    by (auto simp: u_connected_raises session_inv_def)
next
  case (Inr q)
  then show "session_inv int_str s \<Longrightarrow> callbacks_set s \<Longrightarrow> ?thesis"
    by (auto simp: u_connected_eq session_inv_def converts_def)
qed

lemma publishSignal_frame:
  "snd (publishSignal int_str os s) = s\<lparr>calls := calls (snd (publishSignal int_str os s))\<rparr>"
proof (cases "signal_payload (int_float os) (wireless os)")
  case (Inl e)
  then show ?thesis by (simp add: publishSignal_def raise_error_def)
next
  case (Inr p)
  then show ?thesis
    using publish_frame [of int_str "mqtt_topic s @ ''/$stats/signal''" "PInt p" True None s]
    by (simp add: publishSignal_def)
qed

lemma inv_calls: "session_inv int_str (s\<lparr>calls := cs\<rparr>) = session_inv int_str s"
  by (simp add: session_inv_def)

lemma inv_publish:
  "session_inv int_str s \<Longrightarrow> session_inv int_str (snd (publish int_str t v r q s))"
  by (subst publish_frame) (simp add: inv_calls)

lemma u_exitus_frame:
  "snd (u_exitus int_str s) = s\<lparr>calls := calls (snd (u_exitus int_str s))\<rparr>"
  by (simp add: u_exitus_def publish_def do_call_def ok_def raise_error_def
      split: option.splits sum.splits)

lemma inv_step: "session_inv int_str s \<Longrightarrow> session_inv int_str (snd (run_op int_str x s))"
proof (cases x)
  case (OpSubscribe n a cb q)
  then show "session_inv int_str s \<Longrightarrow> ?thesis" by (simp add: inv_subscribe)
next
  case (OpSubscribeProperty n a cb q)
  then show "session_inv int_str s \<Longrightarrow> ?thesis" by (simp add: inv_subscribeProperty)
next
  case (OpSetup r1 r2)
  then show "session_inv int_str s \<Longrightarrow> ?thesis" by (simp add: inv_setup)
next
  case (CbConnected os)
  then show "session_inv int_str s \<Longrightarrow> ?thesis" by (simp add: inv_connected ok_def)
next
  case (FireSignalTimer os)
  have "session_inv int_str s \<Longrightarrow> session_inv int_str (snd (publishSignal int_str os s))"
    by (subst publishSignal_frame) (simp add: inv_calls)
  with FireSignalTimer show "session_inv int_str s \<Longrightarrow> ?thesis"
    by (simp add: ok_def)
next
  case (OpNode nid ntype)
  then show "session_inv int_str s \<Longrightarrow> ?thesis" by (auto simp: Node_def ok_def session_inv_def)
next
  case (OpDeclareProperty i p)
  then show "session_inv int_str s \<Longrightarrow> ?thesis"
    by (auto simp: declareProperty_def ok_def session_inv_def)
next
  case (OpSetFirmware name version)
  then show "session_inv int_str s \<Longrightarrow> ?thesis"
    by (cases "setupCalled s")
       (auto simp: setFirmware_def u_checkBeforeSetup_def raise_error_def ok_def session_inv_def)
next
  case (OpSetNodeProperty n p v r)
  then show "session_inv int_str s \<Longrightarrow> ?thesis"
    by (simp add: setNodeProperty_def inv_publish)
next
  case (OpPublish t v r q)
  then show "session_inv int_str s \<Longrightarrow> ?thesis"
    by (simp add: inv_publish)
next
  case CbSubscribed
  then show "session_inv int_str s \<Longrightarrow> ?thesis"
    by (auto simp: u_subscribed_def ok_def session_inv_def)
next
  case CbPublished
  then show "session_inv int_str s \<Longrightarrow> ?thesis" by (simp add: u_published_def ok_def)
next
  case CbDisconnected
  then show "session_inv int_str s \<Longrightarrow> ?thesis"
    by (auto simp: u_disconnected_def ok_def session_inv_def)
next
  case (FireUptimeTimer os)
  then show "session_inv int_str s \<Longrightarrow> ?thesis"
    by (simp add: publishUptime_def inv_publish ok_def)
next
  case OpExitus
  have "session_inv int_str s \<Longrightarrow> session_inv int_str (snd (u_exitus int_str s))"
    by (subst u_exitus_frame) (simp add: inv_calls)
  with OpExitus show "session_inv int_str s \<Longrightarrow> ?thesis"
    by simp
qed

lemma inv_constructed:
  "init env config gen mk = (evs, Inr c) \<Longrightarrow> session_inv int_str (session_of c)"
  by (auto simp: init_def Let_def session_of_def session_inv_def
      split: if_splits pyval.splits option.splits)

lemma reachable_inv: "reachable int_str s \<Longrightarrow> session_inv int_str s"
proof (induction rule: reachable.induct)
  case (constructed env config gen mk evs c)
  then show ?case by (rule inv_constructed)
next
  case (operation s x r s')
  then show ?case using inv_step [of int_str s x] by simp
qed

lemma split_wlan0:
  "split ''wlan0: 0000   70.  -40.  -256        0      0      0'' =
     [''wlan0:'', ''0000'', ''70.'', ''-40.'', ''-256'', ''0'', ''0'', ''0'']"
  by (simp add: split_def is_space_def)

lemma linux_signal: "signal_payload (int_float linux_host) (wireless linux_host) = Inr 70"
  by (simp add: linux_host_def signal_payload_def third_field_def split_wlan0 example_int_float_def)

lemma loud_signal: "signal_payload (int_float loud_host) (wireless loud_host) = Inr 150"
  by (simp add: loud_host_def linux_host_def signal_payload_def third_field_def split_def
      is_space_def example_int_float_def)


lemma reachable_snd: "reachable int_str s \<Longrightarrow> reachable int_str (snd (run_op int_str x s))"
  using reachable.operation [of int_str s x "fst (run_op int_str x s)" "snd (run_op int_str x s)"]
  by simp

lemma relay_ready_run:
  "run_op int_str (OpSubscribe switchNode ''on'' 0 None)
     (snd (run_op int_str (OpSetFirmware ''relay-switch'' ''1.0.0'')
        (snd (run_op int_str (OpNode ''switch'' ''switch'') relay_start)))) = (None, relay_ready)"
  by (simp add: Node_def setFirmware_def subscribe_def register_subscription_def
      u_checkBeforeSetup_def ok_def do_call_def relay_start_def relay_ready_def switchNode_def)

lemma reachable_relay_ready: "reachable int_str relay_ready"
proof -
  have "reachable int_str (snd (run_op int_str (OpSubscribe switchNode ''on'' 0 None)
     (snd (run_op int_str (OpSetFirmware ''relay-switch'' ''1.0.0'')
        (snd (run_op int_str (OpNode ''switch'' ''switch'') relay_start))))))"
    by (intro reachable_snd reachable_relay_start)
  then show ?thesis by (simp only: relay_ready_run snd_conv)
qed

lemma reachable_sensor_online: "reachable example_int_str sensor_online"
  unfolding sensor_online_def by (intro reachable_snd reachable_relay_start)

lemma relay_setup_eq: "homie_setup None None relay_start = (None, relay_after_setup)"
  by (simp add: homie_setup_def u_initialize_def connect_with_retry_def connect_attempt_def
      do_call_def ok_def Timer_def relay_start_def relay_after_setup_def)

lemma sensor_online_eq:
  "sensor_online = snd (u_connected example_int_str linux_host relay_after_setup)"
proof -
  have "callbacks_set relay_after_setup"
    by (simp add: relay_after_setup_def)
  then show ?thesis
    by (simp add: sensor_online_def relay_setup_eq)
qed

lemma relay_after_setup_qos: "py_int int_str (qos relay_after_setup) = Inr 1"
  by (simp add: relay_after_setup_def relay_start_def)

lemma sensor_online_flags:
  "subscribe_all_forced sensor_online \<and> setupCalled sensor_online \<and>
   \<not> py_truthy (subscribe_all sensor_online) \<and> subscriptions sensor_online = []"
  unfolding sensor_online_eq u_connected_eq [OF relay_after_setup_qos]
  by (simp add: relay_after_setup_def relay_start_def)

lemma reachable_run_ops: "reachable int_str s \<Longrightarrow> reachable int_str (run_ops int_str xs s)"
  unfolding run_ops_def
  by (induction xs arbitrary: s) (simp_all add: reachable_snd)

lemma two_nodes_run:
  "run_ops int_str
     [OpNode ''switch'' ''switch'',
      OpNode ''climate'' ''sensor'',
      OpDeclareProperty 0 \<lparr>p_name = ''on'', p_value = PStr ''false'', p_retain = True\<rparr>,
      OpDeclareProperty 1 \<lparr>p_name = ''temperature'', p_value = PInt 21, p_retain = True\<rparr>,
      OpDeclareProperty 1 \<lparr>p_name = ''humidity'', p_value = PInt 40, p_retain = False\<rparr>,
      OpSetFirmware ''relay-switch'' ''1.0.0'',
      OpSubscribe switchNode ''on'' 0 None] relay_start = two_nodes"
  by (simp add: run_ops_def Node_def declareProperty_def setFirmware_def subscribe_def
      register_subscription_def u_checkBeforeSetup_def ok_def do_call_def relay_start_def
      relay_ready_def two_nodes_def example_nodes_def switchNode_def)

lemma reachable_two_nodes: "reachable int_str two_nodes"
  using reachable_run_ops [OF reachable_relay_start] two_nodes_run [of int_str] by metis

lemma two_nodes_setup_eq: "homie_setup None None two_nodes = (None, two_nodes_setup)"
  by (simp add: homie_setup_def u_initialize_def connect_with_retry_def connect_attempt_def
      do_call_def ok_def Timer_def relay_start_def relay_ready_def two_nodes_def
      two_nodes_setup_def)

lemma reachable_two_nodes_setup: "reachable int_str two_nodes_setup"
proof -
  have "reachable int_str (snd (run_op int_str (OpSetup None None) two_nodes))"
    by (intro reachable_snd reachable_two_nodes)
  then show ?thesis by (simp add: two_nodes_setup_eq)
qed

lemma null_qos_nodes_run:
  "run_ops int_str
     [OpNode ''switch'' ''switch'',
      OpNode ''climate'' ''sensor'',
      OpDeclareProperty 0 \<lparr>p_name = ''on'', p_value = PStr ''false'', p_retain = True\<rparr>,
      OpDeclareProperty 1 \<lparr>p_name = ''temperature'', p_value = PInt 21, p_retain = True\<rparr>,
      OpDeclareProperty 1 \<lparr>p_name = ''humidity'', p_value = PInt 40, p_retain = False\<rparr>,
      OpSetup None None] null_qos_start = null_qos_nodes"
  by (simp add: run_ops_def Node_def declareProperty_def homie_setup_def u_initialize_def
      connect_with_retry_def connect_attempt_def do_call_def ok_def Timer_def relay_start_def
      null_qos_start_def null_qos_nodes_def relay_after_setup_def example_nodes_def)

lemma reachable_null_qos_nodes: "reachable int_str null_qos_nodes"
  using reachable_run_ops [OF reachable_null_qos_start] null_qos_nodes_run [of int_str] by metis

lemma null_qos_online_run:
  "run_op int_str (CbConnected os)
     (snd (run_op int_str (OpSetup None None) null_qos_start)) = (Some TypeError, null_qos_online)"
proof -
  have s: "homie_setup None None null_qos_start = (None, relay_after_setup\<lparr>qos := PNone\<rparr>)"
    by (simp add: homie_setup_def u_initialize_def connect_with_retry_def connect_attempt_def
        do_call_def ok_def Timer_def relay_start_def relay_after_setup_def null_qos_start_def)
  have e: "py_int int_str (qos (relay_after_setup\<lparr>qos := PNone\<rparr>)) = Inl TypeError"
    by simp
  have c: "callbacks_set (relay_after_setup\<lparr>qos := PNone\<rparr>)"
    by (simp add: relay_after_setup_def)
  have u: "u_connected int_str os (relay_after_setup\<lparr>qos := PNone\<rparr>) =
      (Some TypeError, null_qos_online)"
    unfolding u_connected_raises [OF e]
    by (simp add: null_qos_online_def relay_after_setup_def relay_start_def)
  show ?thesis
    by (simp add: s c u)
qed

lemma reachable_null_qos_online: "reachable int_str null_qos_online"
proof -
  have "reachable int_str (snd (run_op int_str (CbConnected linux_host)
     (snd (run_op int_str (OpSetup None None) null_qos_start))))"
    by (intro reachable_snd reachable_null_qos_start)
  then show ?thesis by (simp only: null_qos_online_run snd_conv)
qed

lemmas trace_defs = announcement_def subscription_calls_def firmware_calls_def
  property_calls_def signal_calls_def retained_def

lemma map_filter_app: "List.map_filter f (xs @ ys) = List.map_filter f xs @ List.map_filter f ys"
  by (simp add: List.map_filter_def)

lemma shape_retained: "shape (retained root q suffix v) = Some (root @ suffix, True)"
  by (simp add: retained_def)

lemma shape_subscription_calls: "List.map_filter shape (subscription_calls q s) = []"
  by (simp add: subscription_calls_def List.map_filter_simps)

lemma announced_connected:
  "py_int int_str (qos s) = Inr q \<Longrightarrow>
   announced s (snd (u_connected int_str os s)) = List.map_filter shape (announcement q os s)"
  by (simp add: announced_def new_calls_def u_connected_eq map_filter_app shape_subscription_calls
      List.map_filter_simps)

lemma announced_raises:
  "py_int int_str (qos s) = Inl e \<Longrightarrow> announced s (snd (u_connected int_str os s)) = []"
  by (simp add: announced_def new_calls_def u_connected_raises List.map_filter_simps)

lemma shape_firmware_calls:
  "List.map_filter shape (firmware_calls root q fw suffix) =
     (case fw of None \<Rightarrow> [] | Some v \<Rightarrow> if v \<noteq> [] then [(root @ suffix, True)] else [])"
  by (simp add: firmware_calls_def List.map_filter_simps shape_retained split: option.splits)

lemma shape_retained_map:
  "List.map_filter shape (map (\<lambda>p. retained root q (f p) (g p)) ps) =
     map (\<lambda>p. (root @ f p, True)) ps"
  by (induction ps) (simp_all add: List.map_filter_simps shape_retained)

lemma shape_property_calls:
  "List.map_filter shape (property_calls root q n) =
     map (\<lambda>p. (root @ ''/'' @ nodeId n @ ''/'' @ p_name p, True)) (props n)"
  by (simp add: property_calls_def shape_retained_map)

lemma shape_all_property_calls:
  "List.map_filter shape (concat (map (property_calls root q) ns)) =
     concat (map (\<lambda>n. map (\<lambda>p. (root @ ''/'' @ nodeId n @ ''/'' @ p_name p, True)) (props n)) ns)"
  by (induction ns) (simp_all add: List.map_filter_simps map_filter_app shape_property_calls)

lemma shape_signal_calls:
  "List.map_filter shape (signal_calls root q sig) =
     (if isl sig then [] else [(root @ ''/$stats/signal'', True), (root @ ''/$implementation'', True)])"
  by (cases sig) (simp_all add: signal_calls_def List.map_filter_simps shape_retained)

lemma announcement_shape:
  "List.map_filter shape (announcement q os s) =
     [(mqtt_topic s @ ''/$online'', True), (mqtt_topic s @ ''/$name'', True),
      (mqtt_topic s @ ''/$homie'', True)] @
     (case fwname s of
        None \<Rightarrow> [] | Some v \<Rightarrow> if v \<noteq> [] then [(mqtt_topic s @ ''/$fw/name'', True)] else []) @
     (case fwversion s of
        None \<Rightarrow> [] | Some v \<Rightarrow> if v \<noteq> [] then [(mqtt_topic s @ ''/$fw/version'', True)] else []) @
     [(mqtt_topic s @ ''/$nodes'', True)] @
     concat (map (\<lambda>n. map (\<lambda>p. (mqtt_topic s @ ''/'' @ nodeId n @ ''/'' @ p_name p, True)) (props n))
               (nodes s)) @
     [(mqtt_topic s @ ''/$localip'', True), (mqtt_topic s @ ''/$mac'', True),
      (mqtt_topic s @ ''/$stats/interval'', True), (mqtt_topic s @ ''/$stats/uptime'', True)] @
     (if isl (signal_payload (int_float os) (wireless os)) then []
      else [(mqtt_topic s @ ''/$stats/signal'', True), (mqtt_topic s @ ''/$implementation'', True)])"
  by (simp add: announcement_def map_filter_app List.map_filter_simps shape_retained
      shape_firmware_calls shape_all_property_calls shape_signal_calls)

lemma announced_shape:
  "announced s (snd (u_connected int_str os s)) =
     (case py_int int_str (qos s) of
        Inl e \<Rightarrow> []
      | Inr q \<Rightarrow> List.map_filter shape (announcement q os s))"
  by (cases "py_int int_str (qos s)") (simp_all add: announced_connected announced_raises)

lemma u_connected_keeps:
  "mqtt_topic (snd (u_connected int_str os s)) = mqtt_topic s"
  "qos (snd (u_connected int_str os s)) = qos s"
  "fwname (snd (u_connected int_str os s)) = fwname s"
  "fwversion (snd (u_connected int_str os s)) = fwversion s"
  "nodes (snd (u_connected int_str os s)) = nodes s"
  by (cases "py_int int_str (qos s)"; simp add: u_connected_eq u_connected_raises)+

text \<open>
  Two connected callbacks in succession, with or without the disconnected callback in
  between, announce the same topics with the same retain flags, in the same order,
  whenever the read of the signal strength ends the same way in both, in particular
  whenever it completes in both; local IP, MAC, uptime and the signal value may differ.
\<close>

lemma reconnect_repeats_when_read_agrees:
  assumes "isl (signal_payload (int_float os') (wireless os')) =
           isl (signal_payload (int_float os) (wireless os))"
  shows "announced (snd (u_disconnected (snd (u_connected int_str os s))))
           (snd (u_connected int_str os' (snd (u_disconnected (snd (u_connected int_str os s)))))) =
         announced s (snd (u_connected int_str os s))"
    and "announced (snd (u_connected int_str os s))
           (snd (u_connected int_str os' (snd (u_connected int_str os s)))) =
         announced s (snd (u_connected int_str os s))"
proof -
  let ?s1 = "snd (u_connected int_str os s)"
  let ?s2 = "snd (u_disconnected ?s1)"
  have k: "mqtt_topic ?s2 = mqtt_topic s" "qos ?s2 = qos s" "fwname ?s2 = fwname s"
    "fwversion ?s2 = fwversion s" "nodes ?s2 = nodes s"
    by (simp_all add: u_disconnected_def ok_def u_connected_keeps)
  have sh: "List.map_filter shape (announcement q os' t) =
      List.map_filter shape (announcement q os s)"
    if "mqtt_topic t = mqtt_topic s" "fwname t = fwname s" "fwversion t = fwversion s"
      "nodes t = nodes s" for q t
    using that assms by (simp add: announcement_shape split: option.splits)
  show "announced ?s2 (snd (u_connected int_str os' ?s2)) = announced s ?s1"
  proof (cases "py_int int_str (qos s)")
    case (Inl e)
    then show ?thesis
      by (simp add: announced_raises k)
  next
    case (Inr q)
    then have "py_int int_str (qos ?s2) = Inr q"
      by (simp add: k)
    then show ?thesis
      using Inr by (simp add: announced_connected sh k)
  qed
  show "announced ?s1 (snd (u_connected int_str os' ?s1)) = announced s ?s1"
  proof (cases "py_int int_str (qos s)")
    case (Inl e)
    then show ?thesis
      by (simp add: announced_raises u_connected_keeps)
  next
    case (Inr q)
    then have "py_int int_str (qos ?s1) = Inr q"
      by (simp add: u_connected_keeps)
    then show ?thesis
      using Inr by (simp add: announced_connected sh u_connected_keeps)
  qed
qed

lemma connect_with_retry_env:
  "connect_with_retry (Some (EnvironmentError m)) r2 s =
     (r2, s\<lparr>calls := calls s @ [Connect (host s) (port s) (keepalive s), Sleep 10,
                                  Connect (host s) (port s) (keepalive s)]\<rparr>)"
  by (cases r2) (simp_all add: connect_with_retry_def connect_attempt_def do_call_def)

lemma u_initialize_env:
  "u_initialize (Some (EnvironmentError m)) r2 s =
     (r2, s\<lparr>callbacks_set := True,
             calls := calls s @ WillSet (mqtt_topic s @ ''/$online'') (PStr ''false'') True #
               (if py_truthy (username s) then [UsernamePwSet (username s) (password s)] else []) @
               (if py_truthy (ca_certs s) then [TlsSet (ca_certs s)] else []) @
               [Connect (host s) (port s) (keepalive s), Sleep 10,
                Connect (host s) (port s) (keepalive s)] @
               (if r2 = None then [LoopStart] else [])\<rparr>)"
  by (cases r2) (simp_all add: u_initialize_def connect_with_retry_env do_call_def ok_def)

lemma third_field_cases:
  "third_field conv line =
     (if length (split line) < 3 then Inl IndexError else conv (split line ! 2))"
  by (auto simp: third_field_def split: list.splits)

lemma scan_lines_past: "2 < i \<Longrightarrow> scan_lines conv i rest p = Inr p"
  by (cases rest) simp_all

section \<open>The session core: the claims\<close>

text \<open>
  Claim C1, as amended. For every session with registered nodes and declared properties
  whose configured qos converts to an integer (\<open>int(self.qos)\<close> returns), the connected
  callback first performs the subscription sequence (when not already subscribed) and
  then publishes, each with \<open>retain = True\<close> and in exactly this order:
  \<open>$online = "true"\<close>, \<open>$name\<close>, \<open>$homie\<close>, \<open>$fw/name\<close> (only if the firmware name was set,
  and is not empty), \<open>$fw/version\<close> (likewise), the \<open>$nodes\<close> payload, every registered
  node's declared property values (nodes in registration order, properties in declaration
  order), then \<open>$localip\<close>, \<open>$mac\<close>, \<open>$stats/interval\<close>, \<open>$stats/uptime\<close> and, the read of
  the signal strength having completed, \<open>$stats/signal\<close> and \<open>$implementation\<close>; the
  callback returns. In this trace the subscription calls precede \<open>$online\<close>, which
  precedes \<open>$nodes\<close>, which precedes every property announcement. When the configured
  qos does not convert, the callback raises the error of the conversion and publishes
  nothing: it has made at most the batched subscribe of a non-empty subscription list,
  with its compensating unsubscribe.
\<close>

theorem connected_announcement:
  "(py_int int_str (qos s) = Inr q \<longrightarrow>
    signal_payload (int_float os) (wireless os) = Inr p \<longrightarrow>
      fst (u_connected int_str os s) = None \<and>
      calls (snd (u_connected int_str os s)) =
        calls s @
        (if mqtt_subscribed s then []
         else if subscriptions s \<noteq> [] then
           SubscribeList (subscriptions s) #
           (if subscribe_all_forced s \<and> \<not> py_truthy (subscribe_all s)
            then [Unsubscribe (mqtt_topic s @ ''/#'')] else [])
         else [SubscribeTopic (mqtt_topic s @ ''/#'') q]) @
        [Publish (mqtt_topic s @ ''/$online'') (PStr ''true'') True q,
         Publish (mqtt_topic s @ ''/$name'') (deviceName s) True q,
         Publish (mqtt_topic s @ ''/$homie'') (PStr ''2.0.1'') True q] @
        (case fwname s of
           None \<Rightarrow> []
         | Some n \<Rightarrow> if n \<noteq> [] then [Publish (mqtt_topic s @ ''/$fw/name'') (PStr n) True q]
                     else []) @
        (case fwversion s of
           None \<Rightarrow> []
         | Some v \<Rightarrow> if v \<noteq> [] then [Publish (mqtt_topic s @ ''/$fw/version'') (PStr v) True q]
                     else []) @
        [Publish (mqtt_topic s @ ''/$nodes'') (PStr (join '','' (map nodeId (nodes s)))) True q] @
        concat (map (\<lambda>n. map (\<lambda>p. Publish (mqtt_topic s @ ''/'' @ nodeId n @ ''/'' @ p_name p)
                                     (p_value p) True q) (props n)) (nodes s)) @
        [Publish (mqtt_topic s @ ''/$localip'') (local_ip os) True q,
         Publish (mqtt_topic s @ ''/$mac'') (local_mac os) True q,
         Publish (mqtt_topic s @ ''/$stats/interval'') (PInt (statsInterval s)) True q,
         Publish (mqtt_topic s @ ''/$stats/uptime'') (PInt (elapsed os)) True q,
         Publish (mqtt_topic s @ ''/$stats/signal'') (PInt p) True q,
         Publish (mqtt_topic s @ ''/$implementation'') (PStr ''homie-python'') True q]) \<and>
   (py_int int_str (qos s) = Inl e \<longrightarrow>
      fst (u_connected int_str os s) = Some e \<and>
      calls (snd (u_connected int_str os s)) =
        calls s @
        (if mqtt_subscribed s \<or> subscriptions s = [] then []
         else SubscribeList (subscriptions s) #
              (if subscribe_all_forced s \<and> \<not> py_truthy (subscribe_all s)
               then [Unsubscribe (mqtt_topic s @ ''/#'')] else [])))"
proof -
  have pc: "property_calls (mqtt_topic s) q =
      (\<lambda>n. map (\<lambda>p. Publish (mqtt_topic s @ ''/'' @ nodeId n @ ''/'' @ p_name p)
                                  (p_value p) True q) (props n))"
    by (rule ext) (simp add: property_calls_def retained_def)
  have a: "fst (u_connected int_str os s) = None \<and>
      calls (snd (u_connected int_str os s)) =
        calls s @
        (if mqtt_subscribed s then []
         else if subscriptions s \<noteq> [] then
           SubscribeList (subscriptions s) #
           (if subscribe_all_forced s \<and> \<not> py_truthy (subscribe_all s)
            then [Unsubscribe (mqtt_topic s @ ''/#'')] else [])
         else [SubscribeTopic (mqtt_topic s @ ''/#'') q]) @
        [Publish (mqtt_topic s @ ''/$online'') (PStr ''true'') True q,
         Publish (mqtt_topic s @ ''/$name'') (deviceName s) True q,
         Publish (mqtt_topic s @ ''/$homie'') (PStr ''2.0.1'') True q] @
        (case fwname s of
           None \<Rightarrow> []
         | Some n \<Rightarrow> if n \<noteq> [] then [Publish (mqtt_topic s @ ''/$fw/name'') (PStr n) True q]
                     else []) @
        (case fwversion s of
           None \<Rightarrow> []
         | Some v \<Rightarrow> if v \<noteq> [] then [Publish (mqtt_topic s @ ''/$fw/version'') (PStr v) True q]
                     else []) @
        [Publish (mqtt_topic s @ ''/$nodes'') (PStr (join '','' (map nodeId (nodes s)))) True q] @
        concat (map (\<lambda>n. map (\<lambda>p. Publish (mqtt_topic s @ ''/'' @ nodeId n @ ''/'' @ p_name p)
                                     (p_value p) True q) (props n)) (nodes s)) @
        [Publish (mqtt_topic s @ ''/$localip'') (local_ip os) True q,
         Publish (mqtt_topic s @ ''/$mac'') (local_mac os) True q,
         Publish (mqtt_topic s @ ''/$stats/interval'') (PInt (statsInterval s)) True q,
         Publish (mqtt_topic s @ ''/$stats/uptime'') (PInt (elapsed os)) True q,
         Publish (mqtt_topic s @ ''/$stats/signal'') (PInt p) True q,
         Publish (mqtt_topic s @ ''/$implementation'') (PStr ''homie-python'') True q]"
    if q: "py_int int_str (qos s) = Inr q"
      and p: "signal_payload (int_float os) (wireless os) = Inr p"
    by (simp add: u_connected_eq [OF q] p announcement_def subscription_calls_def
        firmware_calls_def signal_calls_def retained_def pc split: option.splits)
  have b: "fst (u_connected int_str os s) = Some e \<and>
      calls (snd (u_connected int_str os s)) =
        calls s @
        (if mqtt_subscribed s \<or> subscriptions s = [] then []
         else SubscribeList (subscriptions s) #
              (if subscribe_all_forced s \<and> \<not> py_truthy (subscribe_all s)
               then [Unsubscribe (mqtt_topic s @ ''/#'')] else []))"
    if e: "py_int int_str (qos s) = Inl e"
    by (simp add: u_connected_raises [OF e])
  from a b show ?thesis by blast
qed

theorem connected_announcement_witness:
  "fst (u_connected example_int_str linux_host two_nodes_setup) = None \<and>
   calls (snd (u_connected example_int_str linux_host two_nodes_setup)) =
     [MessageCallbackAdd ''devices/xxxxxxxx/switch/on/set'' 0,
      WillSet ''devices/xxxxxxxx/$online'' (PStr ''false'') True,
      Connect (PStr ''localhost'') (PInt 1883) (PInt 60), LoopStart,
      TimerStart ''uptimeTimer'', TimerStart ''signalTimer'',
      SubscribeList [(''devices/xxxxxxxx/switch/on/set'', 1)],
      Publish ''devices/xxxxxxxx/$online'' (PStr ''true'') True 1,
      Publish ''devices/xxxxxxxx/$name'' (PStr ''xxxxxxxx'') True 1,
      Publish ''devices/xxxxxxxx/$homie'' (PStr ''2.0.1'') True 1,
      Publish ''devices/xxxxxxxx/$fw/name'' (PStr ''relay-switch'') True 1,
      Publish ''devices/xxxxxxxx/$fw/version'' (PStr ''1.0.0'') True 1,
      Publish ''devices/xxxxxxxx/$nodes'' (PStr ''switch,climate'') True 1,
      Publish ''devices/xxxxxxxx/switch/on'' (PStr ''false'') True 1,
      Publish ''devices/xxxxxxxx/climate/temperature'' (PInt 21) True 1,
      Publish ''devices/xxxxxxxx/climate/humidity'' (PInt 40) True 1,
      Publish ''devices/xxxxxxxx/$localip'' (PStr ''192.168.0.7'') True 1,
      Publish ''devices/xxxxxxxx/$mac'' (PStr ''b8:27:eb:00:00:01'') True 1,
      Publish ''devices/xxxxxxxx/$stats/interval'' (PInt 60) True 1,
      Publish ''devices/xxxxxxxx/$stats/uptime'' (PInt 0) True 1,
      Publish ''devices/xxxxxxxx/$stats/signal'' (PInt 70) True 1,
      Publish ''devices/xxxxxxxx/$implementation'' (PStr ''homie-python'') True 1] \<and>
   fst (u_connected example_int_str linux_host (two_nodes_setup\<lparr>qos := PNone\<rparr>)) =
     Some TypeError \<and>
   calls (snd (u_connected example_int_str linux_host (two_nodes_setup\<lparr>qos := PNone\<rparr>))) =
     [MessageCallbackAdd ''devices/xxxxxxxx/switch/on/set'' 0,
      WillSet ''devices/xxxxxxxx/$online'' (PStr ''false'') True,
      Connect (PStr ''localhost'') (PInt 1883) (PInt 60), LoopStart,
      TimerStart ''uptimeTimer'', TimerStart ''signalTimer'',
      SubscribeList [(''devices/xxxxxxxx/switch/on/set'', 1)]]"
proof -
  have f: "local_ip linux_host = PStr ''192.168.0.7''" "local_mac linux_host = PStr ''b8:27:eb:00:00:01''"
    "elapsed linux_host = 0"
    by (simp_all add: linux_host_def)
  show ?thesis
    using connected_announcement [where int_str = example_int_str and os = linux_host
        and s = two_nodes_setup and q = 1 and p = 70]
      connected_announcement [where int_str = example_int_str and os = linux_host
        and s = "two_nodes_setup\<lparr>qos := PNone\<rparr>" and e = TypeError]
    by (simp add: linux_signal f two_nodes_setup_def two_nodes_def example_nodes_def
        relay_ready_def relay_start_def)
qed

text \<open>
  The claim as it is stated fails on a device whose configuration file sets the qos to
  null. \<open>null_qos_nodes\<close> is a reachable state of it, after two nodes are registered, three
  properties declared and \<open>setup()\<close> has run; there the connected callback raises
  \<open>TypeError\<close> in the subscription sequence and publishes nothing.
\<close>

theorem connected_announcement_counterexample:
  "reachable example_int_str null_qos_nodes \<and>
   nodes null_qos_nodes = example_nodes \<and>
   run_op example_int_str (CbConnected linux_host) null_qos_nodes =
     (Some TypeError, null_qos_nodes\<lparr>mqtt_connected := True\<rparr>)"
proof -
  have e: "py_int example_int_str (qos null_qos_nodes) = Inl TypeError"
    by (simp add: null_qos_nodes_def)
  have "u_connected example_int_str linux_host null_qos_nodes =
      (Some TypeError, null_qos_nodes\<lparr>mqtt_connected := True\<rparr>)"
    unfolding u_connected_raises [OF e]
    by (simp add: null_qos_nodes_def relay_after_setup_def relay_start_def)
  moreover have "callbacks_set null_qos_nodes" "nodes null_qos_nodes = example_nodes"
    by (simp_all add: null_qos_nodes_def relay_after_setup_def)
  ultimately show ?thesis
    using reachable_null_qos_nodes [of example_int_str] by simp
qed

text \<open>
  Claim C2, as amended. For every topic, payload and retain flag, a \<open>publish\<close> or
  \<open>setNodeProperty\<close> call made while \<open>connected\<close> is false makes no call on the transport
  and leaves the session object as it is (the value is dropped, not queued). In a
  reachable state with \<open>connected\<close> true whose configured qos converts to an integer,
  \<open>setNodeProperty\<close> makes exactly one publish, to \<open>baseTopic/deviceId/nodeId/prop\<close>, with
  the given retain flag, \<open>True\<close> by default, and that qos; in particular after a connected
  callback the session is connected and the same call makes exactly that one publish with
  \<open>retain = True\<close>. Where the configured qos does not convert, the call made while
  connected raises the error of the conversion, publishes nothing and leaves the session
  object as it is.
\<close>

theorem delivery_gated_by_connection:
  "(\<not> mqtt_connected s \<longrightarrow>
      publish int_str topic payload retain q s = (None, s) \<and>
      setNodeProperty int_str n prop val r s = (None, s)) \<and>
   (reachable int_str s \<and> mqtt_connected s \<and> py_int int_str (qos s) = Inr k \<longrightarrow>
      setNodeProperty int_str n prop val r s =
        (None, s\<lparr>calls := calls s @
           [Publish (baseTopic s @ ''/'' @ deviceId s @ ''/'' @ nodeId n @ ''/'' @ prop) val
              (case r of None \<Rightarrow> True | Some b \<Rightarrow> b) k]\<rparr>)) \<and>
   (reachable int_str s \<and> py_int int_str (qos s) = Inr k \<longrightarrow>
      mqtt_connected (snd (u_connected int_str os s)) \<and>
      new_calls (snd (u_connected int_str os s))
        (snd (setNodeProperty int_str n prop val None (snd (u_connected int_str os s)))) =
        [Publish (baseTopic s @ ''/'' @ deviceId s @ ''/'' @ nodeId n @ ''/'' @ prop) val True k]) \<and>
   (mqtt_connected s \<and> py_int int_str (qos s) = Inl e \<longrightarrow>
      publish int_str topic payload retain None s = (Some e, s) \<and>
      setNodeProperty int_str n prop val r s = (Some e, s))"
proof -
  have a: "\<not> mqtt_connected s \<Longrightarrow> publish int_str topic payload retain q s = (None, s) \<and>
      setNodeProperty int_str n prop val r s = (None, s)"
    by (simp add: setNodeProperty_def publish_disconnected)
  have root: "reachable int_str s \<Longrightarrow> mqtt_topic s = baseTopic s @ ''/'' @ deviceId s"
    using reachable_inv [of int_str s] by (simp add: session_inv_def)
  have b: "reachable int_str s \<and> mqtt_connected s \<and> py_int int_str (qos s) = Inr k \<Longrightarrow>
      setNodeProperty int_str n prop val r s =
        (None, s\<lparr>calls := calls s @
           [Publish (baseTopic s @ ''/'' @ deviceId s @ ''/'' @ nodeId n @ ''/'' @ prop) val
              (case r of None \<Rightarrow> True | Some b \<Rightarrow> b) k]\<rparr>)"
    using root by (simp add: setNodeProperty_connected)
  have c: "reachable int_str s \<and> py_int int_str (qos s) = Inr k \<Longrightarrow>
      mqtt_connected (snd (u_connected int_str os s)) \<and>
      new_calls (snd (u_connected int_str os s))
        (snd (setNodeProperty int_str n prop val None (snd (u_connected int_str os s)))) =
        [Publish (baseTopic s @ ''/'' @ deviceId s @ ''/'' @ nodeId n @ ''/'' @ prop) val True k]"
  proof -
    assume h: "reachable int_str s \<and> py_int int_str (qos s) = Inr k"
    then have r: "mqtt_topic s = baseTopic s @ ''/'' @ deviceId s" by (simp add: root)
    from h have k: "py_int int_str (qos s) = Inr k" by simp
    have conn: "mqtt_connected (snd (u_connected int_str os s))"
      by (simp add: u_connected_eq [OF k])
    have k': "py_int int_str (qos (snd (u_connected int_str os s))) = Inr k"
      by (simp add: u_connected_keeps k)
    show ?thesis
      using conn
      by (simp add: setNodeProperty_connected [OF conn k'] new_calls_def u_connected_keeps r)
  qed
  have d: "mqtt_connected s \<and> py_int int_str (qos s) = Inl e \<Longrightarrow>
      publish int_str topic payload retain None s = (Some e, s) \<and>
      setNodeProperty int_str n prop val r s = (Some e, s)"
    by (simp add: publish_raises setNodeProperty_raises)
  from a b c d show ?thesis by blast
qed

theorem delivery_gated_by_connection_witness:
  "setNodeProperty example_int_str switchNode ''on'' (PStr ''true'') (Some True) relay_ready =
     (None, relay_ready) \<and>
   new_calls sensor_online
     (snd (setNodeProperty example_int_str switchNode ''on'' (PStr ''true'') (Some False)
             sensor_online)) =
     [Publish ''devices/xxxxxxxx/switch/on'' (PStr ''true'') False 1] \<and>
   new_calls (snd (u_connected example_int_str linux_host relay_ready))
     (snd (setNodeProperty example_int_str switchNode ''on'' (PStr ''true'') None
        (snd (u_connected example_int_str linux_host relay_ready)))) =
     [Publish ''devices/xxxxxxxx/switch/on'' (PStr ''true'') True 1] \<and>
   setNodeProperty example_int_str switchNode ''on'' (PStr ''true'') None
     (null_qos_nodes\<lparr>mqtt_connected := True\<rparr>) =
     (Some TypeError, null_qos_nodes\<lparr>mqtt_connected := True\<rparr>)"
proof -
  have so: "mqtt_connected sensor_online" "baseTopic sensor_online = ''devices''"
    "deviceId sensor_online = ''xxxxxxxx''" "qos sensor_online = PInt 1"
    unfolding sensor_online_eq u_connected_eq [OF relay_after_setup_qos]
    by (simp_all add: relay_after_setup_def relay_start_def)
  have a: "setNodeProperty example_int_str switchNode ''on'' (PStr ''true'') (Some True) relay_ready =
     (None, relay_ready)"
    using delivery_gated_by_connection [of relay_ready example_int_str _ _ _ _ switchNode "''on''"
        "PStr ''true''" "Some True"]
    by (simp add: relay_ready_def relay_start_def)
  have b: "new_calls sensor_online
     (snd (setNodeProperty example_int_str switchNode ''on'' (PStr ''true'') (Some False)
             sensor_online)) =
     [Publish ''devices/xxxxxxxx/switch/on'' (PStr ''true'') False 1]"
    using delivery_gated_by_connection [of sensor_online example_int_str _ _ _ _ switchNode "''on''"
        "PStr ''true''" "Some False" 1]
      reachable_sensor_online so
    by (simp add: new_calls_def switchNode_def)
  have c: "new_calls (snd (u_connected example_int_str linux_host relay_ready))
     (snd (setNodeProperty example_int_str switchNode ''on'' (PStr ''true'') None
        (snd (u_connected example_int_str linux_host relay_ready)))) =
     [Publish ''devices/xxxxxxxx/switch/on'' (PStr ''true'') True 1]"
    using delivery_gated_by_connection [of relay_ready example_int_str _ _ _ _ switchNode "''on''"
        "PStr ''true''" _ 1 linux_host]
      reachable_relay_ready [of example_int_str]
    by (simp add: relay_ready_def relay_start_def switchNode_def)
  have d: "setNodeProperty example_int_str switchNode ''on'' (PStr ''true'') None
     (null_qos_nodes\<lparr>mqtt_connected := True\<rparr>) =
     (Some TypeError, null_qos_nodes\<lparr>mqtt_connected := True\<rparr>)"
    using delivery_gated_by_connection [of "null_qos_nodes\<lparr>mqtt_connected := True\<rparr>"
        example_int_str _ _ _ _ switchNode "''on''" "PStr ''true''" None _ _ TypeError]
    by (simp add: null_qos_nodes_def)
  from a b c d show ?thesis by simp
qed

text \<open>
  The claim as it is stated fails on the device whose configuration file sets the qos to
  null: \<open>null_qos_online\<close> is its state after \<open>setup()\<close> and a connected callback, it is
  connected, and there \<open>setNodeProperty\<close> raises \<open>TypeError\<close> and makes no publish.
\<close>

theorem delivery_gated_by_connection_counterexample:
  "snd (run_op example_int_str (CbConnected linux_host)
          (snd (run_op example_int_str (OpSetup None None) null_qos_start))) = null_qos_online \<and>
   reachable example_int_str null_qos_online \<and>
   mqtt_connected null_qos_online \<and>
   setNodeProperty example_int_str switchNode ''on'' (PStr ''true'') None null_qos_online =
     (Some TypeError, null_qos_online)"
proof -
  have r: "snd (run_op example_int_str (CbConnected linux_host)
          (snd (run_op example_int_str (OpSetup None None) null_qos_start))) = null_qos_online"
    by (simp only: null_qos_online_run snd_conv)
  have "mqtt_connected null_qos_online" "py_int example_int_str (qos null_qos_online) = Inl TypeError"
    by (simp_all add: null_qos_online_def)
  then show ?thesis
    using reachable_null_qos_online [of example_int_str] r
    by (simp only: setNodeProperty_raises simp_thms)
qed

text \<open>
  Claim C3, as amended. The subscription sequence: if the list of recorded subscriptions
  is not empty, it issues exactly one batched subscribe for all recorded (topic, qos)
  pairs, followed by an unsubscribe of the wildcard \<open>deviceRoot/#\<close> if and only if the
  forced-wildcard flag is set and "subscribe all" is not the configured mode, and changes
  nothing else. If the list is empty and the configured qos converts to an integer, it
  issues exactly one subscribe for the single wildcard topic \<open>deviceRoot/#\<close>, with that
  qos, and sets the forced-wildcard flag. If the list is empty and the configured qos does
  not convert, it raises the error of the conversion, issues no subscribe and leaves the
  flag as it is.
\<close>

theorem subscription_sequence:
  "(subscriptions s \<noteq> [] \<longrightarrow>
      u_subscribe int_str s =
        (None, s\<lparr>calls := calls s @ SubscribeList (subscriptions s) #
                   (if subscribe_all_forced s \<and> \<not> py_truthy (subscribe_all s)
                    then [Unsubscribe (mqtt_topic s @ ''/#'')] else [])\<rparr>)) \<and>
   (subscriptions s = [] \<and> py_int int_str (qos s) = Inr q \<longrightarrow>
      u_subscribe int_str s =
        (None, s\<lparr>calls := calls s @ [SubscribeTopic (mqtt_topic s @ ''/#'') q],
                 subscribe_all_forced := True\<rparr>)) \<and>
   (subscriptions s = [] \<and> py_int int_str (qos s) = Inl e \<longrightarrow>
      u_subscribe int_str s = (Some e, s))"
  by (simp add: u_subscribe_list u_subscribe_wildcard u_subscribe_raises)

theorem subscription_sequence_witness:
  "u_subscribe example_int_str relay_ready =
     (None, relay_ready\<lparr>calls := [MessageCallbackAdd ''devices/xxxxxxxx/switch/on/set'' 0,
                                  SubscribeList [(''devices/xxxxxxxx/switch/on/set'', 1)]]\<rparr>) \<and>
   u_subscribe example_int_str (relay_ready\<lparr>subscribe_all_forced := True\<rparr>) =
     (None, relay_ready\<lparr>subscribe_all_forced := True,
              calls := [MessageCallbackAdd ''devices/xxxxxxxx/switch/on/set'' 0,
                        SubscribeList [(''devices/xxxxxxxx/switch/on/set'', 1)],
                        Unsubscribe ''devices/xxxxxxxx/#'']\<rparr>) \<and>
   u_subscribe example_int_str relay_start =
     (None, relay_start\<lparr>calls := [SubscribeTopic ''devices/xxxxxxxx/#'' 1],
                         subscribe_all_forced := True\<rparr>) \<and>
   u_subscribe example_int_str (relay_start\<lparr>qos := PStr ''2''\<rparr>) =
     (None, relay_start\<lparr>qos := PStr ''2'', calls := [SubscribeTopic ''devices/xxxxxxxx/#'' 2],
                         subscribe_all_forced := True\<rparr>) \<and>
   u_subscribe example_int_str null_qos_start = (Some TypeError, null_qos_start)"
  using subscription_sequence [of relay_ready example_int_str]
    subscription_sequence [of "relay_ready\<lparr>subscribe_all_forced := True\<rparr>" example_int_str]
    subscription_sequence [of relay_start example_int_str 1]
    subscription_sequence [of "relay_start\<lparr>qos := PStr ''2''\<rparr>" example_int_str 2]
    subscription_sequence [of null_qos_start example_int_str _ TypeError]
  by (simp add: relay_ready_def relay_start_def null_qos_start_def example_int_str_def)

text \<open>
  The claim as it is stated fails on the device whose configuration file sets the qos to
  null, in the state in which its connected callback runs the subscription sequence: the
  list is empty, and the sequence raises \<open>TypeError\<close>, issues no subscribe and does not
  set the flag.
\<close>

theorem subscription_sequence_counterexample:
  "subscriptions null_qos_online = [] \<and>
   \<not> subscribe_all_forced null_qos_online \<and>
   u_subscribe example_int_str null_qos_online = (Some TypeError, null_qos_online)"
  by (simp add: u_subscribe_def raise_error_def null_qos_online_def relay_after_setup_def
      relay_start_def)

text \<open>
  Claim C4, as amended. In every reachable state where the forced-wildcard flag has been
  set, \<open>setup\<close> has been called, so every subsequent \<open>subscribe\<close> or \<open>subscribeProperty\<close>
  call fails with the setup-ordering error before it records or sends anything: no
  individual-topic entry reaches the transport, and none is recorded in the subscription
  list. The list is empty in such a state, so a later subscription sequence sends the
  wildcard alone, with the integer that the configured qos converts to.
\<close>

theorem forced_wildcard_closes_registration:
  "reachable int_str s \<Longrightarrow> subscribe_all_forced s \<Longrightarrow>
   subscribe int_str n a cb q s = (Some (BaseException ''subscribe''), s) \<and>
   subscribeProperty int_str n a cb q s = (Some (BaseException ''subscribeProperty''), s) \<and>
   subscriptions s = [] \<and>
   (\<exists>k. py_int int_str (qos s) = Inr k \<and>
        new_calls s (snd (u_subscribe int_str s)) = [SubscribeTopic (mqtt_topic s @ ''/#'') k])"
proof -
  assume "reachable int_str s" and f: "subscribe_all_forced s"
  then have "session_inv int_str s" by (simp add: reachable_inv)
  with f have s: "setupCalled s" and e: "subscriptions s = []" and c: "converts int_str (qos s)"
    by (simp_all add: session_inv_def)
  from c obtain k where k: "py_int int_str (qos s) = Inr k"
    by (auto simp: converts_def split: sum.splits)
  have "new_calls s (snd (u_subscribe int_str s)) = [SubscribeTopic (mqtt_topic s @ ''/#'') k]"
    by (simp add: u_subscribe_wildcard [OF e k] new_calls_def)
  with k e show ?thesis
    by (simp add: subscribe_after_setup [OF s] subscribeProperty_after_setup [OF s])
qed

theorem forced_wildcard_closes_registration_witness:
  "subscribe example_int_str switchNode ''on'' 0 None sensor_online =
     (Some (BaseException ''subscribe''), sensor_online) \<and>
   subscribeProperty example_int_str switchNode ''on'' 0 None sensor_online =
     (Some (BaseException ''subscribeProperty''), sensor_online) \<and>
   subscriptions sensor_online = [] \<and>
   new_calls sensor_online (snd (u_subscribe example_int_str sensor_online)) =
     [SubscribeTopic ''devices/xxxxxxxx/#'' 1]"
proof -
  have t: "mqtt_topic sensor_online = ''devices/xxxxxxxx''" "qos sensor_online = PInt 1"
    unfolding sensor_online_eq u_connected_eq [OF relay_after_setup_qos]
    by (simp_all add: relay_after_setup_def relay_start_def)
  show ?thesis
    using forced_wildcard_closes_registration [of example_int_str sensor_online switchNode "''on''" 0 None]
      reachable_sensor_online sensor_online_flags
    by (auto simp: t)
qed

text \<open>
  The claim as it is stated says that the wish for an individual subscription can still be
  recorded once the wildcard is forced. It cannot: on \<open>sensor_online\<close>, a reachable state
  with the flag set, \<open>subscribe\<close> raises and the subscription list stays empty. And where
  the connected callback is invoked on a session before \<open>setup\<close> (outside the reachable
  states, as a unit test can), the flag is set and a later \<open>subscribe\<close> does send the
  individual entry to the transport, and then unsubscribes the wildcard.
\<close>

theorem forced_wildcard_counterexample:
  "reachable example_int_str sensor_online \<and> subscribe_all_forced sensor_online \<and>
   \<not> py_truthy (subscribe_all sensor_online) \<and>
   fst (subscribe example_int_str switchNode ''on'' 0 None sensor_online) =
     Some (BaseException ''subscribe'') \<and>
   subscriptions (snd (subscribe example_int_str switchNode ''on'' 0 None sensor_online)) = [] \<and>
   subscribe_all_forced (snd (u_connected example_int_str linux_host relay_start)) \<and>
   new_calls (snd (u_connected example_int_str linux_host relay_start))
     (snd (subscribe example_int_str switchNode ''on'' 0 None
             (snd (u_connected example_int_str linux_host relay_start)))) =
     [SubscribeList [(''devices/xxxxxxxx/switch/on/set'', 1)],
      Unsubscribe ''devices/xxxxxxxx/#'',
      MessageCallbackAdd ''devices/xxxxxxxx/switch/on/set'' 0]"
proof -
  have s: "setupCalled sensor_online" using sensor_online_flags by simp
  have a: "fst (subscribe example_int_str switchNode ''on'' 0 None sensor_online) =
      Some (BaseException ''subscribe'')"
    "subscriptions (snd (subscribe example_int_str switchNode ''on'' 0 None sensor_online)) = []"
    using sensor_online_flags by (simp_all add: subscribe_after_setup [OF s])
  have q: "py_int example_int_str (qos relay_start) = Inr 1"
    by (simp add: relay_start_def)
  let ?c = "snd (u_connected example_int_str linux_host relay_start)"
  have c: "subscribe_all_forced ?c" "\<not> setupCalled ?c" "mqtt_connected ?c"
    "\<not> py_truthy (subscribe_all ?c)" "subscriptions ?c = []" "mqtt_topic ?c = ''devices/xxxxxxxx''"
    "qos ?c = PInt 1"
    unfolding u_connected_eq [OF q]
    by (simp_all add: relay_start_def)
  have b: "new_calls ?c (snd (subscribe example_int_str switchNode ''on'' 0 None ?c)) =
     [SubscribeList [(''devices/xxxxxxxx/switch/on/set'', 1)],
      Unsubscribe ''devices/xxxxxxxx/#'',
      MessageCallbackAdd ''devices/xxxxxxxx/switch/on/set'' 0]"
    using c
    by (simp add: subscribe_def u_checkBeforeSetup_def ok_def register_subscription_def
        u_subscribe_list u_unsubscribe_def do_call_def new_calls_def switchNode_def)
  from a b c reachable_sensor_online sensor_online_flags show ?thesis by simp
qed


text \<open>
  Claim C6. During \<open>setup\<close>, when the first connect raises an \<open>EnvironmentError\<close>, the
  core sleeps 10 seconds and connects once more: the trace of \<open>setup\<close> holds the first
  connect, the sleep and the second connect, and no third connect; the outcome of the
  second connect is the outcome of \<open>setup\<close>, so its failure propagates to the caller.
\<close>

theorem connect_retried_once:
  "fst (homie_setup (Some (EnvironmentError m)) r2 s) = r2 \<and>
   filter (\<lambda>c. is_connect c \<or> is_sleep c)
     (new_calls s (snd (homie_setup (Some (EnvironmentError m)) r2 s))) =
     [Connect (host s) (port s) (keepalive s), Sleep 10, Connect (host s) (port s) (keepalive s)]"
  by (cases r2)
     (simp_all add: homie_setup_def u_initialize_env do_call_def ok_def Timer_def new_calls_def)

theorem connect_retried_once_witness:
  "fst (homie_setup (Some (EnvironmentError ''refused'')) (Some (EnvironmentError ''refused''))
          relay_ready) = Some (EnvironmentError ''refused'') \<and>
   filter (\<lambda>c. is_connect c \<or> is_sleep c)
     (new_calls relay_ready
        (snd (homie_setup (Some (EnvironmentError ''refused'')) (Some (EnvironmentError ''refused''))
                relay_ready))) =
     [Connect (PStr ''localhost'') (PInt 1883) (PInt 60), Sleep 10,
      Connect (PStr ''localhost'') (PInt 1883) (PInt 60)]"
  using connect_retried_once [of "''refused''" "Some (EnvironmentError ''refused'')" relay_ready]
  by (simp add: relay_ready_def relay_start_def)

text \<open>
  Claim C9, as amended. The signal strength is the default 100 when the file cannot be
  opened or has fewer than three lines. Otherwise, when the third line has at least three
  whitespace-separated fields and \<open>int(float(f))\<close> returns for the third field \<open>f\<close>, the
  signal strength is that integer; it is not clamped to 0..100. This value is what
  \<open>publishSignal\<close> publishes, retained, to \<open>$stats/signal\<close> when the session is connected and
  its configured qos converts to an integer.
\<close>

theorem signal_strength:
  "signal_payload conv None = Inr 100 \<and>
   (length ls < 3 \<longrightarrow> signal_payload conv (Some ls) = Inr 100) \<and>
   (3 \<le> length ls \<longrightarrow> 3 \<le> length (split (ls ! 2)) \<longrightarrow> conv (split (ls ! 2) ! 2) = Inr v \<longrightarrow>
      signal_payload conv (Some ls) = Inr v) \<and>
   (signal_payload (int_float os) (wireless os) = Inr p \<longrightarrow> mqtt_connected s \<longrightarrow>
    py_int int_str (qos s) = Inr q \<longrightarrow>
      publishSignal int_str os s =
        (None, s\<lparr>calls := calls s @
           [Publish (mqtt_topic s @ ''/$stats/signal'') (PInt p) True q]\<rparr>))"
proof -
  have a: "signal_payload conv None = Inr 100"
    by (simp add: signal_payload_def)
  have b: "length ls < 3 \<Longrightarrow> signal_payload conv (Some ls) = Inr 100"
    by (cases ls; cases "tl ls"; cases "tl (tl ls)") (auto simp: signal_payload_def)
  have c: "3 \<le> length ls \<Longrightarrow> 3 \<le> length (split (ls ! 2)) \<Longrightarrow>
      conv (split (ls ! 2) ! 2) = Inr v \<Longrightarrow> signal_payload conv (Some ls) = Inr v"
  proof -
    assume "3 \<le> length ls" and f: "3 \<le> length (split (ls ! 2))"
      and v: "conv (split (ls ! 2) ! 2) = Inr v"
    then obtain l0 l1 l2 rest where ls: "ls = l0 # l1 # l2 # rest"
      by (cases ls; cases "tl ls"; cases "tl (tl ls)") auto
    show ?thesis
      using f v by (simp add: ls signal_payload_def third_field_cases scan_lines_past)
  qed
  have d: "signal_payload (int_float os) (wireless os) = Inr p \<Longrightarrow> mqtt_connected s \<Longrightarrow>
      py_int int_str (qos s) = Inr q \<Longrightarrow>
      publishSignal int_str os s =
        (None, s\<lparr>calls := calls s @
           [Publish (mqtt_topic s @ ''/$stats/signal'') (PInt p) True q]\<rparr>)"
    by (simp add: publishSignal_def publish_connected)
  from a b c d show ?thesis by blast
qed

theorem signal_strength_witness:
  "signal_payload example_int_float
     (Some [''Inter-| sta-|   Quality        |   Discarded packets'',
            '' face | tus | link level noise |  nwid  crypt   frag'',
            ''wlan0: 0000   70.  -40.  -256        0      0      0'']) = Inr 70 \<and>
   signal_payload example_int_float (Some [''Inter-| sta-|'', '' face | tus |'']) = Inr 100 \<and>
   publishSignal example_int_str linux_host (relay_ready\<lparr>mqtt_connected := True\<rparr>) =
     (None, relay_ready\<lparr>mqtt_connected := True,
              calls := [MessageCallbackAdd ''devices/xxxxxxxx/switch/on/set'' 0,
                        Publish ''devices/xxxxxxxx/$stats/signal'' (PInt 70) True 1]\<rparr>)"
  using signal_strength [where conv = example_int_float and ls =
      "[''Inter-| sta-|   Quality        |   Discarded packets'',
        '' face | tus | link level noise |  nwid  crypt   frag'',
        ''wlan0: 0000   70.  -40.  -256        0      0      0'']"
      and v = 70 and os = linux_host and s = "relay_ready\<lparr>mqtt_connected := True\<rparr>"
      and int_str = example_int_str and p = 70 and q = 1]
    signal_strength [where conv = example_int_float and ls = "[''Inter-| sta-|'', '' face | tus |'']"]
    linux_signal
  by (simp add: split_wlan0 example_int_float_def relay_ready_def relay_start_def)

text \<open>
  The claim as it is stated says that the published value lies between 0 and 100. On a
  host whose \<open>/proc/net/wireless\<close> reports the link quality 150, the signal timer of the
  connected device \<open>sensor_online\<close> publishes 150.
\<close>

theorem signal_strength_counterexample:
  "reachable example_int_str sensor_online \<and>
   fst (run_op example_int_str (FireSignalTimer loud_host) sensor_online) = None \<and>
   new_calls sensor_online (snd (run_op example_int_str (FireSignalTimer loud_host) sensor_online)) =
     [Publish ''devices/xxxxxxxx/$stats/signal'' (PInt 150) True 1]"
proof -
  have so: "mqtt_connected sensor_online" "mqtt_topic sensor_online = ''devices/xxxxxxxx''"
    "py_int example_int_str (qos sensor_online) = Inr 1"
    "timers sensor_online = [(''uptimeTimer'', 60), (''signalTimer'', 60)]"
    unfolding sensor_online_eq u_connected_eq [OF relay_after_setup_qos]
    by (simp_all add: relay_after_setup_def relay_start_def)
  have "publishSignal example_int_str loud_host sensor_online =
      (None, sensor_online\<lparr>calls := calls sensor_online @
         [Publish ''devices/xxxxxxxx/$stats/signal'' (PInt 150) True 1]\<rparr>)"
    using publishSignal_ok [OF loud_signal so(1) so(3) so(2)]
    by (simp add: retained_def)
  then show ?thesis
    using reachable_sensor_online by (simp add: so new_calls_def)
qed
end
